theory Spec2Isabelle
  imports Complex_Main
begin

section \<open>Python values and errors\<close>

text \<open>
  The exceptions the modelled code can raise. A function of the source that may raise returns
  \<open>py_error + 'a\<close>, with \<open>Inl\<close> for the exception.
\<close>

datatype py_error = IndexError | ValueError | TypeError | ZeroDivisionError | OverflowError

text \<open>
  Python's \<open>xs[i]\<close> for an index \<open>i \<ge> 0\<close>: IndexError beyond the end of the list.
\<close>

definition py_index :: "'a list \<Rightarrow> nat \<Rightarrow> py_error + 'a" where
  "py_index xs i = (if i < length xs then Inr (xs ! i) else Inl IndexError)"

text \<open>
  An argument that a method of Qt declares as \<open>int\<close> is a C \<open>int\<close> of 32 bits: the binding
  raises OverflowError for a Python integer outside this range.
\<close>

definition c_int_ok :: "int \<Rightarrow> bool" where
  "c_int_ok n = (- (2 ^ 31) \<le> n \<and> n < 2 ^ 31)"

subsection \<open>The expression \<open>int(0.25 * n)\<close>\<close>

text \<open>
  \<open>0.25 * n\<close> converts the integer \<open>n\<close> to a double first: exactly when \<open>n\<close> has at most 53
  significant bits, otherwise to the nearest double, ties to the even significand, and with
  OverflowError when the rounded value does not fit (\<open>2 ^ 1024\<close> and beyond). The product with
  \<open>0.25\<close> is exact (a scaling by a power of two, without underflow for an integer-valued
  double), and \<open>int\<close> truncates it towards zero.
\<close>

fun bitlen :: "nat \<Rightarrow> nat" where
  "bitlen n = (if n = 0 then 0 else Suc (bitlen (n div 2)))"

declare bitlen.simps [simp del]

definition float_of_int :: "int \<Rightarrow> py_error + int" where
  "float_of_int n =
     (let a = nat \<bar>n\<bar>; k = bitlen a in
      if k \<le> 53 then Inr n
      else
        let sh = k - 53;
            q = a div 2 ^ sh;
            r = a mod 2 ^ sh;
            half = 2 ^ (sh - 1);
            q' = (if half < r \<or> (r = half \<and> odd q) then q + 1 else q);
            v = q' * 2 ^ sh
        in if 2 ^ 1024 \<le> v then Inl OverflowError
           else Inr (if n < 0 then - int v else int v))"

definition int_quarter :: "int \<Rightarrow> py_error + int" where
  "int_quarter n =
     (case float_of_int n of
        Inl e \<Rightarrow> Inl e
      | Inr x \<Rightarrow> Inr (if 0 \<le> x then x div 4 else - ((- x) div 4)))"

section \<open>Rails (shelf.py, RailWidget)\<close>

text \<open>
  The fields of a RailWidget that the code reads and writes. The constructor computes the
  tolerance and \<open>max_items\<close> and then runs \<open>_setup_ui\<close>, which hands \<open>max_items\<close> to
  \<open>progress_bar.setRange(0, self.max_items)\<close>, a method on C integers. \<open>progress_bar_value\<close> is the
  value last handed to \<open>progress_bar.setValue\<close> (0 after \<open>_setup_ui\<close>); \<open>item_count_text\<close>
  is the count shown in the text of \<open>item_count_button\<close>, \<open>None\<close> for the initial \<open>#\<close>;
  \<open>item_count_color\<close> is the colour of the style sheet set by \<open>update_connection_status\<close>,
  \<open>None\<close> while none has been set.
\<close>

record RailWidget =
  rail_esl_id :: string
  mac_address :: string
  rail_empty_distance :: int
  rail_full_distance :: int
  item_length :: int
  tolerance :: int
  max_items :: int
  image_path :: string
  progress_bar_value :: int
  item_count_text :: "int option"
  item_count_color :: "string option"

definition RailWidget_init ::
  "int \<Rightarrow> int \<Rightarrow> int \<Rightarrow> string \<Rightarrow> string \<Rightarrow> string \<Rightarrow> py_error + RailWidget" where
  "RailWidget_init empty_d full_d len eid mac img =
     (case int_quarter len of
        Inl e \<Rightarrow> Inl e
      | Inr tol \<Rightarrow>
          if len = 0 then Inl ZeroDivisionError
          else if \<not> c_int_ok ((empty_d - full_d) div len) then Inl OverflowError
          else Inr \<lparr> rail_esl_id = eid, mac_address = mac,
                     rail_empty_distance = empty_d, rail_full_distance = full_d,
                     item_length = len, tolerance = tol,
                     max_items = (empty_d - full_d) div len,
                     image_path = img,
                     progress_bar_value = 0,
                     item_count_text = None,
                     item_count_color = None \<rparr>)"

definition update_distance :: "RailWidget \<Rightarrow> int \<Rightarrow> py_error + RailWidget" where
  "update_distance rail distance =
     (if item_length rail = 0 then Inl ZeroDivisionError
      else
        let n_items = (rail_empty_distance rail - distance + tolerance rail) div item_length rail;
            n_items = min (max n_items 0) (max_items rail)
        in Inr (rail\<lparr> progress_bar_value := n_items, item_count_text := Some n_items \<rparr>))"

definition update_connection_status :: "RailWidget \<Rightarrow> bool \<Rightarrow> RailWidget" where
  "update_connection_status rail conn =
     rail\<lparr> item_count_color := Some (if conn then ''#FFFFFF'' else ''#D32F2F'') \<rparr>"

definition on_measure_button_clicked :: "RailWidget \<Rightarrow> string" where
  "on_measure_button_clicked rail = ''esl_c force_measure '' @ rail_esl_id rail"

definition on_item_count_label_clicked :: "RailWidget \<Rightarrow> string" where
  "on_item_count_label_clicked rail = ''esl_c acl connect_addr 1 '' @ mac_address rail"

section \<open>Strings\<close>

text \<open>
  A string is a list of characters, one \<open>char\<close> for each code point; the model covers the
  code points below 256 (the wire protocol is ASCII). The case mapping below changes the
  ASCII letters only. The code compares upper-cased keys with ASCII keywords; of the code
  points from 128 to 255 only U+00DF has an upper case made of ASCII letters, \<open>SS\<close>, which
  no keyword contains, so each comparison comes out as it does with \<open>str.upper\<close>.
\<close>

definition py_isspace :: "char \<Rightarrow> bool" where
  \<comment> \<open>\<open>str.isspace\<close> on one code point below 256\<close>
  "py_isspace c =
     (let k = (of_char c :: nat)
      in (9 \<le> k \<and> k \<le> 13) \<or> (28 \<le> k \<and> k \<le> 32) \<or> k = 133 \<or> k = 160)"

definition py_strip :: "string \<Rightarrow> string" where
  "py_strip s = rev (dropWhile py_isspace (rev (dropWhile py_isspace s)))"

definition upper_char :: "char \<Rightarrow> char" where
  "upper_char c =
     (let k = (of_char c :: nat) in if 97 \<le> k \<and> k \<le> 122 then char_of (k - 32) else c)"

definition py_upper :: "string \<Rightarrow> string" where
  "py_upper s = map upper_char s"

text \<open>\<open>s.split(sep)\<close> for a one-character separator: never an empty list.\<close>

fun py_split :: "char \<Rightarrow> string \<Rightarrow> string list" where
  "py_split sep [] = [[]]"
| "py_split sep (c # cs) =
     (if c = sep then [] # py_split sep cs
      else (case py_split sep cs of
              [] \<Rightarrow> [[c]]
            | w # ws \<Rightarrow> (c # w) # ws))"

text \<open>
  \<open>re.findall(r"\[([^\]]*)\]", s)\<close>: the matches are found from left to right and do not
  overlap. A match starts at a \<open>[\<close> and ends at the first \<open>]\<close> after it; its group is
  everything in between, which may contain \<open>[\<close>. A \<open>[\<close> with no \<open>]\<close> after it starts no
  match, and then no later position does either. The first argument is the open group,
  reversed, when the scan is inside a pair.
\<close>

fun scan_fields :: "string option \<Rightarrow> string \<Rightarrow> string list" where
  "scan_fields _ [] = []"
| "scan_fields None (c # cs) =
     (if c = CHR ''['' then scan_fields (Some []) cs else scan_fields None cs)"
| "scan_fields (Some acc) (c # cs) =
     (if c = CHR '']'' then rev acc # scan_fields None cs else scan_fields (Some (c # acc)) cs)"

definition findall_fields :: "string \<Rightarrow> string list" where
  "findall_fields s = scan_fields None s"

subsection \<open>\<open>int(s)\<close> and \<open>int(s, 16)\<close>\<close>

text \<open>
  \<open>int\<close> on a string skips white space at both ends (the ASCII white space of C and, of the
  code points from 128 to 255, the two that are Unicode spaces), reads an optional sign, for
  base 16 an optional prefix \<open>0x\<close> or \<open>0X\<close> that one underscore may follow, and then digits
  with single underscores between them. Anything else is a ValueError, here \<open>None\<close>.
  So is a number with more than 4300 digits, the underscores not counted, in a base that is
  not a power of two: the limit of the interpreter, which the code leaves at its default.
\<close>

definition int_isspace :: "char \<Rightarrow> bool" where
  "int_isspace c =
     (let k = (of_char c :: nat) in (9 \<le> k \<and> k \<le> 13) \<or> k = 32 \<or> k = 133 \<or> k = 160)"

definition digit_value :: "char \<Rightarrow> nat option" where
  "digit_value c =
     (let k = (of_char c :: nat)
      in if 48 \<le> k \<and> k \<le> 57 then Some (k - 48)
         else if 97 \<le> k \<and> k \<le> 122 then Some (k - 87)
         else if 65 \<le> k \<and> k \<le> 90 then Some (k - 55)
         else None)"

fun parse_digits :: "nat \<Rightarrow> nat \<Rightarrow> bool \<Rightarrow> string \<Rightarrow> nat option" where
  "parse_digits base acc prev_us [] = (if prev_us then None else Some acc)"
| "parse_digits base acc prev_us (c # cs) =
     (if c = CHR ''_'' then (if prev_us then None else parse_digits base acc True cs)
      else (case digit_value c of
              None \<Rightarrow> None
            | Some d \<Rightarrow> if d < base then parse_digits base (acc * base + d) False cs else None))"

definition parse_body :: "nat \<Rightarrow> string \<Rightarrow> nat option" where
  "parse_body base s =
     (case s of
        [] \<Rightarrow> None
      | c # _ \<Rightarrow> if c = CHR ''_'' then None else parse_digits base 0 False s)"

definition skip_prefix :: "nat \<Rightarrow> string \<Rightarrow> string" where
  "skip_prefix base s =
     (case s of
        c0 # c1 # rest \<Rightarrow>
          if base = 16 \<and> c0 = CHR ''0'' \<and> (c1 = CHR ''x'' \<or> c1 = CHR ''X'')
          then (case rest of
                  u # rest' \<Rightarrow> if u = CHR ''_'' then rest' else rest
                | [] \<Rightarrow> rest)
          else s
      | _ \<Rightarrow> s)"

definition max_str_digits :: nat where
  "max_str_digits = 4300"

definition not_underscore :: "char \<Rightarrow> bool" where
  "not_underscore c = (c \<noteq> CHR ''_'')"

definition digit_limit_ok :: "nat \<Rightarrow> string \<Rightarrow> bool" where
  "digit_limit_ok base s =
     (base = 2 \<or> base = 4 \<or> base = 8 \<or> base = 16 \<or> base = 32
      \<or> length (filter not_underscore s) \<le> max_str_digits)"

definition py_int :: "nat \<Rightarrow> string \<Rightarrow> int option" where
  "py_int base s =
     (let t = rev (dropWhile int_isspace (rev (dropWhile int_isspace s)));
          (neg, u) = (case t of
                        [] \<Rightarrow> (False, t)
                      | c # cs \<Rightarrow> if c = CHR ''+'' then (False, cs)
                                  else if c = CHR ''-'' then (True, cs)
                                  else (False, t))
      in if \<not> digit_limit_ok base (skip_prefix base u) then None
         else (case parse_body base (skip_prefix base u) of
                 None \<Rightarrow> None
               | Some n \<Rightarrow> Some (if neg then - int n else int n)))"

subsection \<open>The format \<open>04X\<close>\<close>

definition hex_char :: "nat \<Rightarrow> char" where
  "hex_char d = ''0123456789ABCDEF'' ! d"

fun hex_of_nat :: "nat \<Rightarrow> string" where
  "hex_of_nat n = (if n < 16 then [hex_char n] else hex_of_nat (n div 16) @ [hex_char (n mod 16)])"

declare hex_of_nat.simps [simp del]

text \<open>
  \<open>f"{n:04X}"\<close>: upper-case hexadecimal digits, padded with zeros after the sign to a
  width of at least four characters, the sign included. A longer number is not cut.
\<close>

definition format_04X :: "int \<Rightarrow> string" where
  "format_04X n =
     (let h = hex_of_nat (nat \<bar>n\<bar>)
      in if n < 0 then CHR ''-'' # replicate (3 - length h) CHR ''0'' @ h
         else replicate (4 - length h) CHR ''0'' @ h)"

section \<open>Messages (message.py)\<close>

datatype MessageType = DISTANCE | BATTERY | DISCONNECTED | OTHER

record Message =
  msg_type :: MessageType
  content :: string
  esl_id :: "string option"
  data :: "int option"

text \<open>
  \<open>_convert_esl_id\<close>: any exception of the conversion gives \<open>None\<close>, also the TypeError of
  \<open>int(None, 16)\<close> when no ID was passed.
\<close>

definition convert_esl_id :: "string option \<Rightarrow> string option" where
  "convert_esl_id eid =
     (case eid of
        None \<Rightarrow> None
      | Some s \<Rightarrow> (case py_int 16 s of None \<Rightarrow> None | Some n \<Rightarrow> Some (format_04X n)))"

definition Message_init ::
  "MessageType \<Rightarrow> string \<Rightarrow> string option \<Rightarrow> int option \<Rightarrow> Message" where
  "Message_init mt txt eid d =
     \<lparr> msg_type = mt, content = txt, esl_id = convert_esl_id eid, data = d \<rparr>"

section \<open>The parser (parser.py)\<close>

text \<open>
  The body of the \<open>try\<close> block of \<open>parse_message_fields\<close>, with its exceptions: IndexError
  for a field or a part that is not there, ValueError for a payload that \<open>int\<close> rejects.
  \<open>first_field[0]\<close> and \<open>second_field[0]\<close> are the heads of lists that \<open>split\<close> never
  leaves empty.
\<close>

definition parse_message_fields_try :: "string \<Rightarrow> py_error + Message" where
  "parse_message_fields_try msg =
     (let fields = findall_fields (drop 1 msg) in
      case py_index fields 0 of
        Inl e \<Rightarrow> Inl e
      | Inr f0 \<Rightarrow>
          let first_field = py_split CHR '':'' f0 in
          if py_upper (hd first_field) = ''ESL_ID'' then
            (case py_index first_field 1 of
               Inl e \<Rightarrow> Inl e
             | Inr v \<Rightarrow>
                 let eid = py_strip v in
                 (case py_index fields 1 of
                    Inl e \<Rightarrow> Inl e
                  | Inr f1 \<Rightarrow>
                      let second_field = py_split CHR '':'' f1;
                          key = py_upper (py_strip (hd second_field)) in
                      if key = ''DISTANCE'' then
                        (case py_index second_field 1 of
                           Inl e \<Rightarrow> Inl e
                         | Inr p \<Rightarrow>
                             (case py_int 10 (py_strip p) of
                                None \<Rightarrow> Inl ValueError
                              | Some n \<Rightarrow> Inr (Message_init DISTANCE msg (Some eid) (Some n))))
                      else if key = ''BATTERY'' then
                        (case py_index second_field 1 of
                           Inl e \<Rightarrow> Inl e
                         | Inr p \<Rightarrow>
                             (case py_int 10 (py_strip p) of
                                None \<Rightarrow> Inl ValueError
                              | Some n \<Rightarrow> Inr (Message_init BATTERY msg (Some eid) (Some n))))
                      else if key = ''TAG DISCONNECTED'' then
                        Inr (Message_init DISCONNECTED msg (Some eid) None)
                      else Inr (Message_init OTHER msg None None)))
          else Inr (Message_init OTHER msg None None))"

text \<open>
  \<open>except Exception\<close>: every exception of the body is caught, and \<open>None\<close> is returned.
  The record that is logged there is not part of the model.
\<close>

definition parse_message_fields :: "string \<Rightarrow> Message option" where
  "parse_message_fields msg =
     (case parse_message_fields_try msg of Inl e \<Rightarrow> None | Inr m \<Rightarrow> Some m)"

text \<open>\<open>parse_message\<close>: the value handed to \<open>message_parsed.emit\<close>.\<close>

definition parse_message :: "string \<Rightarrow> Message option" where
  "parse_message message =
     (let parsed_message = py_strip message in
      if take 1 parsed_message = ''#'' then parse_message_fields parsed_message
      else Some (Message_init OTHER message None None))"

section \<open>The shelf (shelf.py, ShelfWidget)\<close>

text \<open>
  The configuration of the shelf, after \<open>config.get(key, [])\<close>: the six parallel lists,
  under the names \<open>__init__\<close> gives them. The IDs are strings, the distances and lengths
  integers, on which \<open>int(length)\<close> is the identity.
\<close>

record shelf_config =
  esl_ids :: "string list"
  mac_addresses :: "string list"
  rails_empty_distance :: "int list"
  rails_full_distance :: "int list"
  items_length :: "int list"
  item_image_paths :: "string list"

text \<open>
  The records of level WARNING and ERROR that the shelf and the serial handler log:
  \<^item> \<open>Warning_expected_ids n\<close>: "Expected 11 ESL IDs, got n."
  \<^item> \<open>Error_cannot_send\<close>: "Cannot send message. Serial Port is closed."
  \<^item> \<open>Error_write_failed\<close>: "Failed to write data: ..."
  \<^item> \<open>Error_configuration\<close>: "Configuration error: ..."
  \<^item> \<open>Error_update_failed\<close>: "Failed to update serial port configuration: ..."
  \<^item> \<open>Error_open_failed\<close>: "Failed to open serial port ..."
  \<^item> \<open>Error_serial_port\<close>: "Serial port error: ..."
  \<^item> \<open>Warning_already_open\<close>: "Serial port ... is already open."
  \<^item> \<open>Warning_close_not_open\<close>: "Attempted to close a serial port that is not open."
  Records of level DEBUG and INFO are left out.
\<close>

datatype log_record =
    Warning_expected_ids nat
  | Error_cannot_send
  | Error_write_failed
  | Error_configuration
  | Error_update_failed
  | Error_open_failed
  | Error_serial_port
  | Warning_already_open
  | Warning_close_not_open

record ShelfWidget =
  rails :: "string \<rightharpoonup> RailWidget"

definition TOP_ROW_ELEMENTS :: nat where
  "TOP_ROW_ELEMENTS = 7"

definition BOTTOM_ROW_ELEMENTS :: nat where
  "BOTTOM_ROW_ELEMENTS = 4"

definition TOTAL_ELEMENTS :: nat where
  "TOTAL_ELEMENTS = TOP_ROW_ELEMENTS + BOTTOM_ROW_ELEMENTS"

text \<open>\<open>[f"{int(id, 16):04X}" for id in esl_ids]\<close>: the first ID that is not hexadecimal raises.\<close>

fun convert_ids :: "string list \<Rightarrow> py_error + string list" where
  "convert_ids [] = Inr []"
| "convert_ids (i # rest) =
     (case py_int 16 i of
        None \<Rightarrow> Inl ValueError
      | Some n \<Rightarrow> (case convert_ids rest of Inl e \<Rightarrow> Inl e | Inr r \<Rightarrow> Inr (format_04X n # r)))"

text \<open>
  One of the two loops of \<open>setup_ui\<close>: \<open>for index, id in enumerate(ids)\<close>, reading the other
  lists at \<open>index + offset\<close>. The arguments of \<open>RailWidget(...)\<close> are evaluated from left to
  right, so the first list that is too short raises the IndexError. \<open>self.rails[id] = ...\<close>
  replaces an entry with the same key.
\<close>

fun add_rails ::
  "nat \<Rightarrow> nat \<Rightarrow> string list \<Rightarrow> string list \<Rightarrow> int list \<Rightarrow> int list \<Rightarrow> int list \<Rightarrow> string list
     \<Rightarrow> (string \<rightharpoonup> RailWidget) \<Rightarrow> py_error + (string \<rightharpoonup> RailWidget)" where
  "add_rails offset index [] macs empties fulls lens imgs rs = Inr rs"
| "add_rails offset index (i # ids) macs empties fulls lens imgs rs =
     (case py_index empties (index + offset) of
        Inl e \<Rightarrow> Inl e
      | Inr empty_d \<Rightarrow>
     (case py_index fulls (index + offset) of
        Inl e \<Rightarrow> Inl e
      | Inr full_d \<Rightarrow>
     (case py_index lens (index + offset) of
        Inl e \<Rightarrow> Inl e
      | Inr len \<Rightarrow>
     (case py_index macs (index + offset) of
        Inl e \<Rightarrow> Inl e
      | Inr mac \<Rightarrow>
     (case py_index imgs (index + offset) of
        Inl e \<Rightarrow> Inl e
      | Inr img \<Rightarrow>
     (case RailWidget_init empty_d full_d len i mac img of
        Inl e \<Rightarrow> Inl e
      | Inr rail \<Rightarrow>
          add_rails offset (Suc index) ids macs empties fulls lens imgs (rs(i \<mapsto> rail))))))))"

definition setup_ui ::
  "string list \<Rightarrow> string list \<Rightarrow> int list \<Rightarrow> int list \<Rightarrow> int list \<Rightarrow> string list
     \<Rightarrow> py_error + ShelfWidget" where
  "setup_ui ids macs empties fulls lens imgs =
     (case add_rails 0 0 (take TOP_ROW_ELEMENTS ids) macs empties fulls lens imgs Map.empty of
        Inl e \<Rightarrow> Inl e
      | Inr top_rails \<Rightarrow>
          (case add_rails TOP_ROW_ELEMENTS 0
                  (take (TOTAL_ELEMENTS - TOP_ROW_ELEMENTS) (drop TOP_ROW_ELEMENTS ids))
                  macs empties fulls lens imgs top_rails of
             Inl e \<Rightarrow> Inl e
           | Inr all_rails \<Rightarrow> Inr \<lparr> rails = all_rails \<rparr>))"

text \<open>
  \<open>ShelfWidget.__init__\<close>: the records logged, and the widget or the exception that leaves
  the constructor.
\<close>

definition ShelfWidget_init :: "shelf_config \<Rightarrow> log_record list \<times> (py_error + ShelfWidget)" where
  "ShelfWidget_init config =
     (let logged = (if length (esl_ids config) \<noteq> TOTAL_ELEMENTS
                    then [Warning_expected_ids (length (esl_ids config))] else [])
      in (logged,
          case convert_ids (esl_ids config) of
            Inl e \<Rightarrow> Inl e
          | Inr ids \<Rightarrow>
              setup_ui ids (mac_addresses config) (rails_empty_distance config)
                (rails_full_distance config) (items_length config) (item_image_paths config)))"

definition is_rail_valid :: "ShelfWidget \<Rightarrow> string \<Rightarrow> bool" where
  "is_rail_valid shelf i = (i \<in> dom (rails shelf))"

text \<open>
  \<open>update_shelf\<close>. The rail object is changed in place, which is an update of the entry of
  the map here. A DISTANCE message without data would raise the TypeError of
  \<open>update_distance(None)\<close>; the parser builds no such message.
\<close>

definition update_shelf :: "ShelfWidget \<Rightarrow> Message \<Rightarrow> py_error + ShelfWidget" where
  "update_shelf shelf message =
     (case esl_id message of
        None \<Rightarrow> Inr shelf
      | Some i \<Rightarrow>
          if is_rail_valid shelf i then
            (case rails shelf i of
               None \<Rightarrow> Inr shelf
             | Some rail \<Rightarrow>
                 (case msg_type message of
                    DISTANCE \<Rightarrow>
                      (case data message of
                         None \<Rightarrow> Inl TypeError
                       | Some d \<Rightarrow>
                           (case update_distance (update_connection_status rail True) d of
                              Inl e \<Rightarrow> Inl e
                            | Inr rail' \<Rightarrow> Inr (shelf\<lparr> rails := (rails shelf)(i \<mapsto> rail') \<rparr>)))
                  | DISCONNECTED \<Rightarrow>
                      Inr (shelf\<lparr> rails := (rails shelf)(i \<mapsto> update_connection_status rail False) \<rparr>)
                  | BATTERY \<Rightarrow>
                      Inr (shelf\<lparr> rails := (rails shelf)(i \<mapsto> update_connection_status rail True) \<rparr>)
                  | OTHER \<Rightarrow> Inr shelf))
          else Inr shelf)"

section \<open>The serial link (serial_handler.py, SerialHandler)\<close>

text \<open>
  The configuration dictionary, one field for each key, \<open>None\<close> for a key that is absent;
  the types are the ones the setters are annotated with. The number of stop bits is an
  \<open>int\<close> or a \<open>float\<close> in the source, a rational number here.
\<close>

record serial_config =
  port :: "string option"
  baudrate :: "int option"
  data_bits :: "int option"
  parity :: "string option"
  stop_bits :: "rat option"
  flow_control :: "string option"

definition DEFAULT_BAUDRATE :: int where
  "DEFAULT_BAUDRATE = 115200"

definition DEFAULT_DATA_BITS :: int where
  "DEFAULT_DATA_BITS = 8"

definition DEFAULT_PARITY :: string where
  "DEFAULT_PARITY = ''None''"

definition DEFAULT_STOP_BITS :: rat where
  "DEFAULT_STOP_BITS = 1"

definition DEFAULT_FLOW_CONTROL :: string where
  "DEFAULT_FLOW_CONTROL = ''RTS/CTS''"

datatype DataBits = Data5 | Data6 | Data7 | Data8

datatype Parity = NoParity | EvenParity | OddParity | MarkParity | SpaceParity

datatype StopBits = OneStop | OneAndHalfStop | TwoStop

datatype FlowControl = NoFlowControl | HardwareControl | SoftwareControl

datatype signal =
    message_received string
  | message_sent string
  | serial_port_closed string
  | serial_port_opened string
  | serial_port_error string

text \<open>
  What the code cannot decide by itself is a parameter: whether \<open>QSerialPort.open\<close>
  succeeds, what \<open>QSerialPort.write\<close> returns for the data it is handed (the number of
  bytes, or \<open>-1\<close>), the name that \<open>QSerialPort.setPortName\<close> keeps for the name it is
  given (the name without the directory of the devices of the platform), and the text of
  \<open>QSerialPort.errorString\<close> after a failed open.
\<close>

record qt_env =
  open_succeeds :: bool
  write_result :: "string \<Rightarrow> int"
  short_port_name :: "string \<Rightarrow> string"
  error_string :: string

datatype SerialPortError = NoError | OpenError

text \<open>
  The handler: the settings and the state of its \<open>QSerialPort\<close>, the data handed to
  \<open>write\<close> (as text, before the encoding to bytes), the signals emitted and the records
  logged, each oldest first. A method returns the exception that leaves it, \<open>None\<close> when it
  returns normally, and the handler as the method leaves it.
\<close>

record SerialHandler =
  serial_portName :: string
  serial_baudRate :: int
  serial_dataBits :: DataBits
  serial_parity :: Parity
  serial_stopBits :: StopBits
  serial_flowControl :: FlowControl
  serial_isOpen :: bool
  serial_written :: "string list"
  emitted :: "signal list"
  logged :: "log_record list"

text \<open>A new \<open>QSerialPort()\<close>, with the defaults of Qt, closed.\<close>

definition new_SerialHandler :: SerialHandler where
  "new_SerialHandler =
     \<lparr> serial_portName = [], serial_baudRate = 9600, serial_dataBits = Data8,
       serial_parity = NoParity, serial_stopBits = OneStop, serial_flowControl = NoFlowControl,
       serial_isOpen = False, serial_written = [], emitted = [], logged = [] \<rparr>"

definition set_port_name ::
  "qt_env \<Rightarrow> string option \<Rightarrow> SerialHandler \<Rightarrow> py_error option \<times> SerialHandler" where
  "set_port_name env port_name h =
     (case port_name of
        None \<Rightarrow> (Some ValueError, h)
      | Some name \<Rightarrow>
          if name = [] then (Some ValueError, h)
          else (None, h\<lparr> serial_portName := short_port_name env name \<rparr>))"

text \<open>\<open>QSerialPort.setBaudRate\<close> takes a C integer.\<close>

definition set_baudrate :: "int \<Rightarrow> SerialHandler \<Rightarrow> py_error option \<times> SerialHandler" where
  "set_baudrate b h =
     (if c_int_ok b then (None, h\<lparr> serial_baudRate := b \<rparr>) else (Some OverflowError, h))"

definition set_data_bits :: "int \<Rightarrow> SerialHandler \<Rightarrow> SerialHandler" where
  "set_data_bits n h =
     h\<lparr> serial_dataBits :=
          (if n = 5 then Data5
           else if n = 6 then Data6
           else if n = 7 then Data7
           else if n = 8 then Data8
           else Data8) \<rparr>"

text \<open>
  \<open>_set_parity\<close> leaves a string that matches no case as it is and hands it to
  \<open>QSerialPort.setParity\<close>, which takes a value of the enumeration: the binding raises
  TypeError for a string.
\<close>

definition set_parity :: "string \<Rightarrow> SerialHandler \<Rightarrow> py_error option \<times> SerialHandler" where
  "set_parity p h =
     (if p = ''None'' then (None, h\<lparr> serial_parity := NoParity \<rparr>)
      else if p = ''Even'' then (None, h\<lparr> serial_parity := EvenParity \<rparr>)
      else if p = ''Odd'' then (None, h\<lparr> serial_parity := OddParity \<rparr>)
      else if p = ''Mark'' then (None, h\<lparr> serial_parity := MarkParity \<rparr>)
      else if p = ''Space'' then (None, h\<lparr> serial_parity := SpaceParity \<rparr>)
      else (Some TypeError, h))"

definition set_stop_bits :: "rat \<Rightarrow> SerialHandler \<Rightarrow> SerialHandler" where
  "set_stop_bits s h =
     h\<lparr> serial_stopBits :=
          (if s = 1 then OneStop
           else if s = 3 / 2 then OneAndHalfStop
           else if s = 2 then TwoStop
           else OneStop) \<rparr>"

definition set_flow_control :: "string \<Rightarrow> SerialHandler \<Rightarrow> SerialHandler" where
  "set_flow_control f h =
     h\<lparr> serial_flowControl :=
          (if f = ''None'' then NoFlowControl
           else if f = ''RTS/CTS'' then HardwareControl
           else if f = ''XON/XOFF'' then SoftwareControl
           else NoFlowControl) \<rparr>"

text \<open>
  \<open>configure_serial\<close>: the setters in the order of the source. A ValueError is logged and
  raised again; any other exception leaves the method as it is.
\<close>

definition configure_serial ::
  "qt_env \<Rightarrow> serial_config \<Rightarrow> SerialHandler \<Rightarrow> py_error option \<times> SerialHandler" where
  "configure_serial env config h =
     (let log_value_error = (\<lambda>(e, h'). if e = Some ValueError
                                          then (e, h'\<lparr> logged := logged h' @ [Error_configuration] \<rparr>)
                                          else (e, h'))
      in case set_port_name env (port config) h of
           (Some e, h1) \<Rightarrow> log_value_error (Some e, h1)
         | (None, h1) \<Rightarrow>
        (case set_baudrate (case baudrate config of None \<Rightarrow> DEFAULT_BAUDRATE | Some b \<Rightarrow> b) h1 of
           (Some e, h2) \<Rightarrow> log_value_error (Some e, h2)
         | (None, h2) \<Rightarrow>
             let h3 = set_data_bits (case data_bits config of None \<Rightarrow> DEFAULT_DATA_BITS | Some n \<Rightarrow> n) h2
             in (case set_parity (case parity config of None \<Rightarrow> DEFAULT_PARITY | Some p \<Rightarrow> p) h3 of
                   (Some e, h4) \<Rightarrow> log_value_error (Some e, h4)
                 | (None, h4) \<Rightarrow>
                     let h5 = set_stop_bits
                                (case stop_bits config of None \<Rightarrow> DEFAULT_STOP_BITS | Some s \<Rightarrow> s) h4;
                         h6 = set_flow_control
                                (case flow_control config of None \<Rightarrow> DEFAULT_FLOW_CONTROL | Some f \<Rightarrow> f) h5
                     in (None, h6))))"

text \<open>
  \<open>handle_error\<close>, the slot of \<open>errorOccurred\<close>, which \<open>__init__\<close> connects before the first
  \<open>open_serial\<close>.
\<close>

definition handle_error :: "qt_env \<Rightarrow> SerialPortError \<Rightarrow> SerialHandler \<Rightarrow> SerialHandler" where
  "handle_error env err h =
     (if err = NoError then h
      else h\<lparr> logged := logged h @ [Error_serial_port],
              emitted := emitted h @ [serial_port_error (''Serial port error: '' @ error_string env)] \<rparr>)"

text \<open>
  \<open>open_serial\<close>. A failed \<open>QSerialPort.open\<close> emits \<open>errorOccurred\<close> before it returns, so
  \<open>handle_error\<close> runs first.
\<close>

definition open_serial :: "qt_env \<Rightarrow> SerialHandler \<Rightarrow> py_error option \<times> SerialHandler" where
  "open_serial env h =
     (if \<not> serial_isOpen h then
        (if open_succeeds env
         then (None, h\<lparr> serial_isOpen := True,
                          emitted := emitted h @
                            [serial_port_opened (''Serial port '' @ serial_portName h @ '' opened.'')] \<rparr>)
         else (let h' = handle_error env OpenError h
               in (None, h'\<lparr> logged := logged h' @ [Error_open_failed] \<rparr>)))
      else (None, h\<lparr> logged := logged h @ [Warning_already_open] \<rparr>))"

definition close_serial :: "SerialHandler \<Rightarrow> py_error option \<times> SerialHandler" where
  "close_serial h =
     (if serial_isOpen h
      then (None, h\<lparr> serial_isOpen := False,
                       emitted := emitted h @ [serial_port_closed (serial_portName h @ '' closed.'')] \<rparr>)
      else (None, h\<lparr> logged := logged h @ [Warning_close_not_open] \<rparr>))"

text \<open>
  \<open>SerialHandler.__init__\<close>: an exception of \<open>configure_serial\<close> leaves the constructor,
  and \<open>open_serial\<close> is not reached.
\<close>

definition SerialHandler_init :: "qt_env \<Rightarrow> serial_config \<Rightarrow> py_error option \<times> SerialHandler" where
  "SerialHandler_init env serial_config =
     (case configure_serial env serial_config new_SerialHandler of
        (Some e, h) \<Rightarrow> (Some e, h)
      | (None, h) \<Rightarrow> open_serial env h)"

text \<open>
  \<open>update_serial_config\<close>: the port is closed first when it is open; a ValueError of the
  configuration is caught and logged, any other exception leaves the method, and
  \<open>open_serial\<close> is not reached in either case.
\<close>

definition update_serial_config ::
  "qt_env \<Rightarrow> serial_config \<Rightarrow> SerialHandler \<Rightarrow> py_error option \<times> SerialHandler" where
  "update_serial_config env new_config h =
     (let h1 = (if serial_isOpen h then snd (close_serial h) else h)
      in case configure_serial env new_config h1 of
           (Some e, h2) \<Rightarrow>
             if e = ValueError then (None, h2\<lparr> logged := logged h2 @ [Error_update_failed] \<rparr>)
             else (Some e, h2)
         | (None, h2) \<Rightarrow> open_serial env h2)"

text \<open>
  \<open>send_message\<close>: on a closed port the error is logged and the method returns. On an open
  port the message with one line feed appended is handed to \<open>write\<close>; the signal
  \<open>message_sent\<close> follows unless \<open>write\<close> returned \<open>-1\<close>.
\<close>

definition send_message :: "qt_env \<Rightarrow> SerialHandler \<Rightarrow> string \<Rightarrow> py_error option \<times> SerialHandler" where
  "send_message env h message =
     (if \<not> serial_isOpen h then (None, h\<lparr> logged := logged h @ [Error_cannot_send] \<rparr>)
      else
        let message_to_send = message @ [CHR 0x0A];
            bytes_written = write_result env message_to_send;
            h' = h\<lparr> serial_written := serial_written h @ [message_to_send] \<rparr>
        in if bytes_written = - 1
           then (None, h'\<lparr> logged := logged h' @ [Error_write_failed] \<rparr>)
           else (None, h'\<lparr> emitted := emitted h' @ [message_sent message] \<rparr>))"

text \<open>
  An environment for concrete runs: the port opens, \<open>write\<close> takes every byte, and port
  names are kept as they are given.
\<close>

definition count_bytes :: "string \<Rightarrow> int" where
  "count_bytes s = int (length s)"

definition keep_name :: "string \<Rightarrow> string" where
  "keep_name s = s"

definition qt_env_ok :: qt_env where
  "qt_env_ok = \<lparr> open_succeeds = True, write_result = count_bytes,
                 short_port_name = keep_name, error_string = [] \<rparr>"

section \<open>Supporting facts\<close>

subsection \<open>The conversion to a double\<close>

lemma bitlen_le: "n < 2 ^ k \<Longrightarrow> bitlen n \<le> k"
proof (induction n arbitrary: k rule: bitlen.induct)
  case (1 n)
  show ?case
  proof (cases "n = 0")
    case True
    then show ?thesis by (simp add: bitlen.simps)
  next
    case False
    then obtain j where k: "k = Suc j" using 1(2) by (cases k) auto
    have "n div 2 < 2 ^ j" using 1(2) k by auto
    then have "bitlen (n div 2) \<le> j" using 1(1)[OF False] by simp
    then show ?thesis using False k by (subst bitlen.simps) simp
  qed
qed

lemma float_of_int_exact: "\<bar>n\<bar> < 2 ^ 53 \<Longrightarrow> float_of_int n = Inr n"
proof -
  assume a: "\<bar>n\<bar> < 2 ^ 53"
  have "nat \<bar>n\<bar> < 2 ^ 53" using a by (simp add: nat_less_iff)
  then have "bitlen (nat \<bar>n\<bar>) \<le> 53" by (rule bitlen_le)
  then show ?thesis unfolding float_of_int_def Let_def by (simp only: if_True)
qed

lemma int_quarter_exact: "0 \<le> n \<Longrightarrow> n < 2 ^ 53 \<Longrightarrow> int_quarter n = Inr (n div 4)"
  by (simp add: int_quarter_def float_of_int_exact)

subsection \<open>Rules for the evaluation of concrete runs\<close>

lemma replicate_numeral_unfold: "replicate (numeral k) x = x # replicate (pred_numeral k) x"
  by (simp add: numeral_eq_Suc)

lemmas py_eval = py_int_def int_isspace_def parse_body_def skip_prefix_def digit_value_def
  digit_limit_ok_def max_str_digits_def not_underscore_def
  convert_esl_id_def format_04X_def hex_of_nat.simps hex_char_def replicate_numeral_unfold

lemma rail_500_100_40:
  "RailWidget_init 500 100 40 eid mac img =
     Inr \<lparr> rail_esl_id = eid, mac_address = mac,
           rail_empty_distance = 500, rail_full_distance = 100,
           item_length = 40, tolerance = 10, max_items = 10,
           image_path = img, progress_bar_value = 0,
           item_count_text = None, item_count_color = None \<rparr>"
  by (simp add: RailWidget_init_def int_quarter_exact c_int_ok_def)

lemma shelf_0A:
  "ShelfWidget_init \<lparr> esl_ids = [''0A''], mac_addresses = [''AA:BB''],
                      rails_empty_distance = [500], rails_full_distance = [100],
                      items_length = [40], item_image_paths = [''a.png''] \<rparr> =
     ([Warning_expected_ids 1],
      Inr \<lparr> rails = [''000A'' \<mapsto>
              \<lparr> rail_esl_id = ''000A'', mac_address = ''AA:BB'',
                rail_empty_distance = 500, rail_full_distance = 100,
                item_length = 40, tolerance = 10, max_items = 10,
                image_path = ''a.png'', progress_bar_value = 0,
                item_count_text = None, item_count_color = None \<rparr>] \<rparr>)"
  by (simp add: ShelfWidget_init_def setup_ui_def TOTAL_ELEMENTS_def TOP_ROW_ELEMENTS_def
      BOTTOM_ROW_ELEMENTS_def py_index_def py_eval rail_500_100_40)

lemma add_rails_single_dom:
  "add_rails offset index [i] macs empties fulls lens imgs Map.empty = Inr rs \<Longrightarrow> dom rs = {i}"
  by (auto split: sum.splits if_splits)


lemmas parse_eval = parse_message_def parse_message_fields_def parse_message_fields_try_def
  findall_fields_def py_index_def py_strip_def py_isspace_def py_upper_def upper_char_def
  Message_init_def Let_def


subsection \<open>The loops that build the rails\<close>

lemma int_quarter_total: "\<bar>n\<bar> < 2 ^ 53 \<Longrightarrow> \<exists>t. int_quarter n = Inr t"
  by (simp add: int_quarter_def float_of_int_exact)

lemma RailWidget_init_ok:
  "len \<noteq> 0 \<Longrightarrow> \<bar>len\<bar> < 2 ^ 53 \<Longrightarrow> c_int_ok ((e - f) div len) \<Longrightarrow>
     \<exists>rail. RailWidget_init e f len i m img = Inr rail"
  using int_quarter_total [of len] by (auto simp: RailWidget_init_def)

lemma RailWidget_init_error:
  "len \<noteq> 0 \<Longrightarrow> \<bar>len\<bar> < 2 ^ 53 \<Longrightarrow> c_int_ok ((e - f) div len) \<Longrightarrow>
     RailWidget_init e f len i m img \<noteq> Inl err"
  using RailWidget_init_ok [of len e f i m img] by auto

lemma convert_ids_length: "convert_ids xs = Inr ys \<Longrightarrow> length ys = length xs"
  by (induction xs arbitrary: ys) (auto split: option.splits sum.splits)

lemma add_rails_succeeds:
  assumes "\<forall>k < length ids.
             index + offset + k < length macs \<and> index + offset + k < length empties
           \<and> index + offset + k < length fulls \<and> index + offset + k < length lens
           \<and> index + offset + k < length imgs
           \<and> lens ! (index + offset + k) \<noteq> 0 \<and> \<bar>lens ! (index + offset + k)\<bar> < 2 ^ 53
           \<and> c_int_ok ((empties ! (index + offset + k) - fulls ! (index + offset + k))
                         div lens ! (index + offset + k))"
  shows "\<exists>rs'. add_rails offset index ids macs empties fulls lens imgs rs = Inr rs'
           \<and> dom rs' = dom rs \<union> set ids"
  using assms
proof (induction ids arbitrary: index rs)
  case Nil
  then show ?case by simp
next
  case (Cons i ids)
  have "0 < length (i # ids)" by simp
  with Cons.prems have here0:
    "index + offset + 0 < length macs \<and> index + offset + 0 < length empties
           \<and> index + offset + 0 < length fulls \<and> index + offset + 0 < length lens
           \<and> index + offset + 0 < length imgs
           \<and> lens ! (index + offset + 0) \<noteq> 0 \<and> \<bar>lens ! (index + offset + 0)\<bar> < 2 ^ 53
           \<and> c_int_ok ((empties ! (index + offset + 0) - fulls ! (index + offset + 0))
                         div lens ! (index + offset + 0))"
    by blast
  then have here:
    "index + offset < length macs" "index + offset < length empties"
    "index + offset < length fulls" "index + offset < length lens"
    "index + offset < length imgs"
    "lens ! (index + offset) \<noteq> 0" "\<bar>lens ! (index + offset)\<bar> < 2 ^ 53"
    "c_int_ok ((empties ! (index + offset) - fulls ! (index + offset)) div lens ! (index + offset))"
    by simp_all
  obtain rail where rail:
    "RailWidget_init (empties ! (index + offset)) (fulls ! (index + offset))
       (lens ! (index + offset)) i (macs ! (index + offset)) (imgs ! (index + offset)) = Inr rail"
    using RailWidget_init_ok [OF here(6,7,8)] by blast
  have later: "\<forall>k < length ids.
             Suc index + offset + k < length macs \<and> Suc index + offset + k < length empties
           \<and> Suc index + offset + k < length fulls \<and> Suc index + offset + k < length lens
           \<and> Suc index + offset + k < length imgs
           \<and> lens ! (Suc index + offset + k) \<noteq> 0 \<and> \<bar>lens ! (Suc index + offset + k)\<bar> < 2 ^ 53
           \<and> c_int_ok ((empties ! (Suc index + offset + k) - fulls ! (Suc index + offset + k))
                         div lens ! (Suc index + offset + k))"
  proof (intro allI impI)
    fix k assume "k < length ids"
    then have "Suc k < length (i # ids)" by simp
    with Cons.prems have
      "index + offset + Suc k < length macs \<and> index + offset + Suc k < length empties
           \<and> index + offset + Suc k < length fulls \<and> index + offset + Suc k < length lens
           \<and> index + offset + Suc k < length imgs
           \<and> lens ! (index + offset + Suc k) \<noteq> 0 \<and> \<bar>lens ! (index + offset + Suc k)\<bar> < 2 ^ 53
           \<and> c_int_ok ((empties ! (index + offset + Suc k) - fulls ! (index + offset + Suc k))
                         div lens ! (index + offset + Suc k))"
      by blast
    moreover have "index + offset + Suc k = Suc index + offset + k" by simp
    ultimately show "Suc index + offset + k < length macs \<and> Suc index + offset + k < length empties
           \<and> Suc index + offset + k < length fulls \<and> Suc index + offset + k < length lens
           \<and> Suc index + offset + k < length imgs
           \<and> lens ! (Suc index + offset + k) \<noteq> 0 \<and> \<bar>lens ! (Suc index + offset + k)\<bar> < 2 ^ 53
           \<and> c_int_ok ((empties ! (Suc index + offset + k) - fulls ! (Suc index + offset + k))
                         div lens ! (Suc index + offset + k))"
      by simp
  qed
  obtain rs' where rs': "add_rails offset (Suc index) ids macs empties fulls lens imgs (rs(i \<mapsto> rail)) = Inr rs'"
      "dom rs' = dom (rs(i \<mapsto> rail)) \<union> set ids"
    using Cons.IH [OF later] by blast
  have "add_rails offset index (i # ids) macs empties fulls lens imgs rs = Inr rs'"
    using here(1-5) rail rs'(1) by (simp add: py_index_def)
  moreover have "dom rs' = dom rs \<union> set (i # ids)"
    using rs'(2) by auto
  ultimately show ?case by blast
qed

text \<open>
  What a successful loop leaves in the map: the keys outside the IDs are untouched, and an
  ID that does not occur again later in the list is bound to the rail built from the
  entries at its own index.
\<close>

lemma add_rails_contents:
  "add_rails offset index ids macs empties fulls lens imgs rs = Inr rs' \<Longrightarrow>
     (\<forall>i. i \<notin> set ids \<longrightarrow> rs' i = rs i)
   \<and> (\<forall>k < length ids. (\<forall>j. k < j \<and> j < length ids \<longrightarrow> ids ! j \<noteq> ids ! k) \<longrightarrow>
         (\<exists>rail. RailWidget_init (empties ! (index + offset + k)) (fulls ! (index + offset + k))
                    (lens ! (index + offset + k)) (ids ! k) (macs ! (index + offset + k))
                    (imgs ! (index + offset + k)) = Inr rail
                \<and> rs' (ids ! k) = Some rail))"
proof (induction ids arbitrary: index rs)
  case Nil
  then show ?case by simp
next
  case (Cons i ids)
  from Cons.prems obtain rail where
      rail: "RailWidget_init (empties ! (index + offset)) (fulls ! (index + offset))
               (lens ! (index + offset)) i (macs ! (index + offset)) (imgs ! (index + offset)) = Inr rail"
    and rest: "add_rails offset (Suc index) ids macs empties fulls lens imgs (rs(i \<mapsto> rail)) = Inr rs'"
    by (auto simp: py_index_def split: if_splits sum.splits)
  note IH = Cons.IH [OF rest]
  have keep: "i' \<notin> set ids \<Longrightarrow> rs' i' = (rs(i \<mapsto> rail)) i'" for i'
    using IH by blast
  have part1: "\<forall>i'. i' \<notin> set (i # ids) \<longrightarrow> rs' i' = rs i'"
    using keep by auto
  have part2: "\<exists>r. RailWidget_init (empties ! (index + offset + k)) (fulls ! (index + offset + k))
                    (lens ! (index + offset + k)) ((i # ids) ! k) (macs ! (index + offset + k))
                    (imgs ! (index + offset + k)) = Inr r
                \<and> rs' ((i # ids) ! k) = Some r"
    if k: "k < length (i # ids)"
      and last: "\<forall>j. k < j \<and> j < length (i # ids) \<longrightarrow> (i # ids) ! j \<noteq> (i # ids) ! k"
    for k
  proof (cases k)
    case 0
    have "i \<notin> set ids"
    proof
      assume "i \<in> set ids"
      then obtain j where "j < length ids" "ids ! j = i"
        by (auto simp: in_set_conv_nth)
      then have "0 < Suc j \<and> Suc j < length (i # ids)" "(i # ids) ! Suc j = (i # ids) ! 0"
        by simp_all
      then show False using last 0 by blast
    qed
    then have "rs' i = Some rail" using keep [of i] by simp
    then show ?thesis using 0 rail by simp
  next
    case (Suc k')
    then have k': "k' < length ids" using k by simp
    have last': "\<forall>j. k' < j \<and> j < length ids \<longrightarrow> ids ! j \<noteq> ids ! k'"
    proof (intro allI impI)
      fix j assume "k' < j \<and> j < length ids"
      then have "k < Suc j \<and> Suc j < length (i # ids)" using Suc by simp
      then have "(i # ids) ! Suc j \<noteq> (i # ids) ! k" using last by blast
      then show "ids ! j \<noteq> ids ! k'" using Suc by simp
    qed
    from IH k' last' obtain r where
      "RailWidget_init (empties ! (Suc index + offset + k')) (fulls ! (Suc index + offset + k'))
                    (lens ! (Suc index + offset + k')) (ids ! k') (macs ! (Suc index + offset + k'))
                    (imgs ! (Suc index + offset + k')) = Inr r" "rs' (ids ! k') = Some r"
      by blast
    moreover have "Suc index + offset + k' = index + offset + k" using Suc by simp
    ultimately show ?thesis using Suc by (intro exI [of _ r]) simp
  qed
  show ?case using part1 part2 by blast
qed

lemma add_rails_in_range:
  "add_rails offset index ids macs empties fulls lens imgs rs = Inr rs' \<Longrightarrow>
     \<forall>k < length ids.
        index + offset + k < length macs \<and> index + offset + k < length empties
      \<and> index + offset + k < length fulls \<and> index + offset + k < length lens
      \<and> index + offset + k < length imgs"
proof (induction ids arbitrary: index rs)
  case Nil
  then show ?case by simp
next
  case (Cons i ids)
  from Cons.prems obtain rail where
      here: "index + offset < length macs" "index + offset < length empties"
        "index + offset < length fulls" "index + offset < length lens"
        "index + offset < length imgs"
    and rest: "add_rails offset (Suc index) ids macs empties fulls lens imgs (rs(i \<mapsto> rail)) = Inr rs'"
    by (auto simp: py_index_def split: if_splits sum.splits)
  note IH = Cons.IH [OF rest]
  show ?case
  proof (intro allI impI)
    fix k assume k: "k < length (i # ids)"
    show "index + offset + k < length macs \<and> index + offset + k < length empties
      \<and> index + offset + k < length fulls \<and> index + offset + k < length lens
      \<and> index + offset + k < length imgs"
    proof (cases k)
      case 0
      then show ?thesis using here by simp
    next
      case (Suc j)
      then have "j < length ids" using k by simp
      then show ?thesis using IH Suc by simp
    qed
  qed
qed

lemma add_rails_error:
  assumes "\<forall>k. k < length lens \<and> k < length empties \<and> k < length fulls \<longrightarrow>
             lens ! k \<noteq> 0 \<and> \<bar>lens ! k\<bar> < 2 ^ 53
           \<and> c_int_ok ((empties ! k - fulls ! k) div lens ! k)"
  shows "add_rails offset index ids macs empties fulls lens imgs rs = Inl e \<Longrightarrow> e = IndexError"
proof (induction ids arbitrary: index rs)
  case Nil
  then show ?case by simp
next
  case (Cons i ids)
  show ?case
  proof (cases "index + offset < length lens \<and> index + offset < length empties
      \<and> index + offset < length fulls")
    case True
    then have ok: "lens ! (index + offset) \<noteq> 0" "\<bar>lens ! (index + offset)\<bar> < 2 ^ 53"
      "c_int_ok ((empties ! (index + offset) - fulls ! (index + offset)) div lens ! (index + offset))"
      using assms by blast+
    show ?thesis
      using Cons.prems Cons.IH RailWidget_init_error [OF ok]
      by (auto simp: py_index_def split: if_splits sum.splits)
  next
    case False
    then show ?thesis
      using Cons.prems by (auto simp: py_index_def split: if_splits sum.splits)
  qed
qed

subsection \<open>Canonical IDs\<close>

text \<open>
  Where \<open>_convert_esl_id\<close> does what its documentation says: a hexadecimal input with a
  value from 0 to \<open>0xFFFF\<close> is converted to four upper-case hexadecimal digits, and an
  input that is not hexadecimal to \<open>None\<close>.
\<close>

lemma hex_char_in: "d < 16 \<Longrightarrow> hex_char d \<in> set ''0123456789ABCDEF''"
  unfolding hex_char_def by (rule nth_mem) simp

lemma hex_of_nat_chars: "set (hex_of_nat n) \<subseteq> set ''0123456789ABCDEF''"
proof (induction n rule: hex_of_nat.induct)
  case (1 n)
  show ?case
  proof (cases "n < 16")
    case True
    then show ?thesis
      using hex_char_in [of n] by (subst hex_of_nat.simps) simp
  next
    case False
    have "n mod 16 < 16" by simp
    then have "hex_char (n mod 16) \<in> set ''0123456789ABCDEF''" by (rule hex_char_in)
    then show ?thesis
      using False 1 by (subst hex_of_nat.simps) simp
  qed
qed

lemma hex_of_nat_length: "n < 16 ^ Suc k \<Longrightarrow> length (hex_of_nat n) \<le> Suc k"
proof (induction k arbitrary: n)
  case 0
  then show ?case by (subst hex_of_nat.simps) simp
next
  case (Suc k)
  show ?case
  proof (cases "n < 16")
    case True
    then show ?thesis by (subst hex_of_nat.simps) simp
  next
    case False
    have "n div 16 < 16 ^ Suc k"
      using Suc.prems by (simp add: less_mult_imp_div_less mult.commute)
    then have "length (hex_of_nat (n div 16)) \<le> Suc k" by (rule Suc.IH)
    then show ?thesis using False by (subst hex_of_nat.simps) simp
  qed
qed

lemma format_04X_in_range:
  assumes "0 \<le> n" and "n < 65536"
  shows "length (format_04X n) = 4 \<and> set (format_04X n) \<subseteq> set ''0123456789ABCDEF''"
proof -
  have "nat \<bar>n\<bar> < 16 ^ Suc 3" using assms by simp
  then have l: "length (hex_of_nat (nat \<bar>n\<bar>)) \<le> 4"
    using hex_of_nat_length [of "nat \<bar>n\<bar>" 3] by simp
  have c: "set (hex_of_nat (nat \<bar>n\<bar>)) \<subseteq> set ''0123456789ABCDEF''"
    by (rule hex_of_nat_chars)
  have z: "set (replicate k CHR ''0'') \<subseteq> set ''0123456789ABCDEF''" for k
    by auto
  show ?thesis
    using assms(1) l c z [of "4 - length (hex_of_nat (nat \<bar>n\<bar>))"]
    by (simp add: format_04X_def Let_def del: set_replicate)
qed

lemma convert_esl_id_in_range:
  "py_int 16 s = Some n \<Longrightarrow> 0 \<le> n \<Longrightarrow> n < 65536 \<Longrightarrow>
     \<exists>t. convert_esl_id (Some s) = Some t \<and> length t = 4 \<and> set t \<subseteq> set ''0123456789ABCDEF''"
  using format_04X_in_range [of n] by (simp add: convert_esl_id_def)

lemma convert_esl_id_not_hex: "py_int 16 s = None \<Longrightarrow> convert_esl_id (Some s) = None"
  by (simp add: convert_esl_id_def)


subsection \<open>The limit on decimal digits\<close>

lemma skip_prefix_decimal: "skip_prefix 10 s = s"
  by (simp add: skip_prefix_def split: list.splits)

lemma py_int_long_decimal: "py_int 10 (replicate 4301 CHR ''1'') = None"
proof -
  have sp: "\<not> int_isspace CHR ''1''"
    by (simp add: int_isspace_def)
  have d: "dropWhile int_isspace (replicate n CHR ''1'') = replicate n CHR ''1''" for n
    using sp by (cases n) simp_all
  have t: "rev (dropWhile int_isspace (rev (dropWhile int_isspace (replicate 4301 CHR ''1''))))
      = replicate 4301 CHR ''1''"
    by (simp only: d rev_replicate)
  have c: "replicate 4301 CHR ''1'' = CHR ''1'' # replicate 4300 CHR ''1''"
    by (simp add: replicate_numeral_unfold)
  have l: "\<not> digit_limit_ok 10 (CHR ''1'' # replicate 4300 CHR ''1'')"
    by (simp add: digit_limit_ok_def max_str_digits_def not_underscore_def)
  show ?thesis
    unfolding py_int_def t
    by (simp add: Let_def c l skip_prefix_decimal)
qed

section \<open>Claims about the rail\<close>

text \<open>
  C3 (as amended). For every rail built with an item length \<open>len\<close> such that
  \<open>0 < len < 2 ^ 53\<close> and with distances such that \<open>(empty - full) div len\<close> is a C
  integer: the constructor succeeds with \<open>tolerance = len div 4\<close>, the floor of a quarter of
  the length, and \<open>max_items = (empty - full) div len\<close>; and for every distance \<open>d\<close>,
  \<open>update_distance\<close> succeeds and stores and shows
  \<open>min (max ((empty - d + tolerance) div len) 0) max_items\<close>, the raw count clamped below
  at 0 and then above at \<open>max_items\<close>. The bound on \<open>len\<close> is where the double product
  \<open>0.25 * len\<close> is exact; the bound on \<open>max_items\<close> is the one of the progress bar. The
  witness is the rail of the specification: empty 500, full 100, item length 40 give
  \<open>max_items = 10\<close>, \<open>tolerance = 10\<close>, and the distance 120 gives the count 9.
\<close>

theorem rail_calibration_and_distance:
  assumes "0 < len" and "len < 2 ^ 53" and "c_int_ok ((empty_d - full_d) div len)"
  shows "\<exists>rail. RailWidget_init empty_d full_d len eid mac img = Inr rail
           \<and> tolerance rail = len div 4
           \<and> max_items rail = (empty_d - full_d) div len
           \<and> (\<forall>d. update_distance rail d =
                  Inr (rail\<lparr> progress_bar_value :=
                               min (max ((empty_d - d + len div 4) div len) 0) ((empty_d - full_d) div len),
                             item_count_text :=
                               Some (min (max ((empty_d - d + len div 4) div len) 0)
                                         ((empty_d - full_d) div len)) \<rparr>))"
proof -
  have q: "int_quarter len = Inr (len div 4)"
    using assms(1,2) by (simp add: int_quarter_exact)
  let ?rail = "\<lparr> rail_esl_id = eid, mac_address = mac,
                  rail_empty_distance = empty_d, rail_full_distance = full_d,
                  item_length = len, tolerance = len div 4,
                  max_items = (empty_d - full_d) div len,
                  image_path = img, progress_bar_value = 0,
                  item_count_text = None, item_count_color = None \<rparr>"
  have init: "RailWidget_init empty_d full_d len eid mac img = Inr ?rail"
    using assms(1,3) by (simp add: RailWidget_init_def q)
  have upd: "update_distance ?rail d =
                  Inr (?rail\<lparr> progress_bar_value :=
                               min (max ((empty_d - d + len div 4) div len) 0) ((empty_d - full_d) div len),
                             item_count_text :=
                               Some (min (max ((empty_d - d + len div 4) div len) 0)
                                         ((empty_d - full_d) div len)) \<rparr>)" for d
    using assms(1) by (simp add: update_distance_def Let_def)
  show ?thesis
    using init upd by (intro exI[of _ ?rail]) simp
qed

theorem rail_calibration_and_distance_witness:
  "(0::int) < 40 \<and> (40::int) < 2 ^ 53 \<and> c_int_ok ((500 - 100) div 40)
   \<and> (\<exists>rail. RailWidget_init 500 100 40 ''000A'' ''AA:BB'' ''a.png'' = Inr rail
         \<and> tolerance rail = 10 \<and> max_items rail = 10
         \<and> update_distance rail 120 = Inr (rail\<lparr> progress_bar_value := 9, item_count_text := Some 9 \<rparr>))"
proof -
  have h1: "(0::int) < 40" and h2: "(40::int) < 2 ^ 53" by simp_all
  have h3: "c_int_ok ((500 - 100) div 40)" by (simp add: c_int_ok_def)
  obtain rail where r: "RailWidget_init 500 100 40 ''000A'' ''AA:BB'' ''a.png'' = Inr rail"
      "tolerance rail = 40 div 4" "max_items rail = (500 - 100) div 40"
      "\<forall>d. update_distance rail d =
                  Inr (rail\<lparr> progress_bar_value :=
                               min (max ((500 - d + 40 div 4) div 40) 0) ((500 - 100) div 40),
                             item_count_text :=
                               Some (min (max ((500 - d + 40 div 4) div 40) 0)
                                         ((500 - 100) div 40)) \<rparr>)"
    using rail_calibration_and_distance [OF h1 h2 h3, of "''000A''" "''AA:BB''" "''a.png''"]
    by blast
  have "update_distance rail 120 = Inr (rail\<lparr> progress_bar_value := 9, item_count_text := Some 9 \<rparr>)"
    using r(4) by simp
  then show ?thesis using r(1,2,3) h3 by simp
qed

text \<open>
  C3 as stated, for every item length above 0, fails in two places. Beyond the range of
  exact doubles: for the item length \<open>2 ^ 53 + 3 = 9007199254740995\<close> the conversion to a
  double rounds to \<open>2 ^ 53 + 4\<close>, so the tolerance is \<open>2251799813685249\<close>, one more than the
  floor of a quarter of the length. Beyond the range of a C integer: with empty
  \<open>2147483648\<close>, full 0 and item length 1, \<open>max_items\<close> is \<open>2 ^ 31\<close>, the progress bar
  refuses it with OverflowError, and there is no rail.
\<close>

theorem tolerance_large_item_length_counterexample:
  "RailWidget_init 500 100 9007199254740995 ''000A'' ''AA:BB'' ''a.png'' =
     Inr \<lparr> rail_esl_id = ''000A'', mac_address = ''AA:BB'',
           rail_empty_distance = 500, rail_full_distance = 100,
           item_length = 9007199254740995, tolerance = 2251799813685249,
           max_items = 0, image_path = ''a.png'', progress_bar_value = 0,
           item_count_text = None, item_count_color = None \<rparr>
   \<and> (9007199254740995::int) div 4 = 2251799813685248
   \<and> RailWidget_init 2147483648 0 1 ''000A'' ''AA:BB'' ''a.png'' = Inl OverflowError"
proof (intro conjI)
  show "RailWidget_init 500 100 9007199254740995 ''000A'' ''AA:BB'' ''a.png'' =
     Inr \<lparr> rail_esl_id = ''000A'', mac_address = ''AA:BB'',
           rail_empty_distance = 500, rail_full_distance = 100,
           item_length = 9007199254740995, tolerance = 2251799813685249,
           max_items = 0, image_path = ''a.png'', progress_bar_value = 0,
           item_count_text = None, item_count_color = None \<rparr>"
    by (simp add: RailWidget_init_def int_quarter_def float_of_int_def bitlen.simps Let_def
        c_int_ok_def)
  show "(9007199254740995::int) div 4 = 2251799813685248"
    by simp
  show "RailWidget_init 2147483648 0 1 ''000A'' ''AA:BB'' ''a.png'' = Inl OverflowError"
    by (simp add: RailWidget_init_def int_quarter_exact c_int_ok_def)
qed


text \<open>
  C5 (as amended). For every rail with a positive item length and all distances
  \<open>d1 \<le> d2\<close>, \<open>update_distance\<close> succeeds on both, the count for \<open>d2\<close> is at most the count
  for \<open>d1\<close>, every count is at most \<open>max_items\<close>, and every count is at least 0 when
  \<open>max_items\<close> is at least 0 (that is, when the full distance does not exceed the empty
  distance).
\<close>

theorem item_count_monotone_and_bounded:
  assumes "0 < item_length rail" and "d1 \<le> d2"
  shows "\<exists>n1 n2.
           update_distance rail d1 = Inr (rail\<lparr> progress_bar_value := n1, item_count_text := Some n1 \<rparr>)
         \<and> update_distance rail d2 = Inr (rail\<lparr> progress_bar_value := n2, item_count_text := Some n2 \<rparr>)
         \<and> n2 \<le> n1
         \<and> n1 \<le> max_items rail \<and> n2 \<le> max_items rail
         \<and> (0 \<le> max_items rail \<longrightarrow> 0 \<le> n1 \<and> 0 \<le> n2)"
proof -
  define raw where "raw d = (rail_empty_distance rail - d + tolerance rail) div item_length rail" for d
  define n where "n d = min (max (raw d) 0) (max_items rail)" for d
  have u: "update_distance rail d = Inr (rail\<lparr> progress_bar_value := n d, item_count_text := Some (n d) \<rparr>)" for d
    using assms(1) by (simp add: update_distance_def Let_def n_def raw_def)
  have "rail_empty_distance rail - d2 + tolerance rail \<le> rail_empty_distance rail - d1 + tolerance rail"
    using assms(2) by simp
  then have "raw d2 \<le> raw d1"
    unfolding raw_def using assms(1) by (rule zdiv_mono1)
  then have mono: "n d2 \<le> n d1"
    unfolding n_def by linarith
  have ub: "n d \<le> max_items rail" for d
    unfolding n_def by linarith
  have lb: "0 \<le> max_items rail \<Longrightarrow> 0 \<le> n d" for d
    unfolding n_def by linarith
  show ?thesis
  proof (intro exI conjI impI)
    show "update_distance rail d1 = Inr (rail\<lparr> progress_bar_value := n d1, item_count_text := Some (n d1) \<rparr>)"
      by (rule u)
    show "update_distance rail d2 = Inr (rail\<lparr> progress_bar_value := n d2, item_count_text := Some (n d2) \<rparr>)"
      by (rule u)
    show "n d2 \<le> n d1" by (rule mono)
    show "n d1 \<le> max_items rail" by (rule ub)
    show "n d2 \<le> max_items rail" by (rule ub)
    show "0 \<le> n d1" if "0 \<le> max_items rail" using that by (rule lb)
    show "0 \<le> n d2" if "0 \<le> max_items rail" using that by (rule lb)
  qed
qed

theorem item_count_monotone_and_bounded_witness:
  "\<exists>rail n1 n2. RailWidget_init 500 100 40 ''000A'' ''AA:BB'' ''a.png'' = Inr rail
     \<and> 0 < item_length rail \<and> (120::int) \<le> 160
     \<and> update_distance rail 120 = Inr (rail\<lparr> progress_bar_value := n1, item_count_text := Some n1 \<rparr>)
     \<and> update_distance rail 160 = Inr (rail\<lparr> progress_bar_value := n2, item_count_text := Some n2 \<rparr>)
     \<and> n2 \<le> n1 \<and> n1 \<le> max_items rail \<and> 0 \<le> n2"
proof -
  let ?rail = "\<lparr> rail_esl_id = ''000A'', mac_address = ''AA:BB'',
                  rail_empty_distance = 500, rail_full_distance = 100,
                  item_length = 40, tolerance = 10, max_items = 10,
                  image_path = ''a.png'', progress_bar_value = 0,
                  item_count_text = None, item_count_color = None \<rparr>"
  have init: "RailWidget_init 500 100 40 ''000A'' ''AA:BB'' ''a.png'' = Inr ?rail"
    by (simp add: RailWidget_init_def int_quarter_exact c_int_ok_def)
  have h1: "0 < item_length ?rail" by simp
  have h2: "(120::int) \<le> 160" by simp
  obtain n1 n2 where
      "update_distance ?rail 120 = Inr (?rail\<lparr> progress_bar_value := n1, item_count_text := Some n1 \<rparr>)"
      "update_distance ?rail 160 = Inr (?rail\<lparr> progress_bar_value := n2, item_count_text := Some n2 \<rparr>)"
      "n2 \<le> n1" "n1 \<le> max_items ?rail" "0 \<le> max_items ?rail \<longrightarrow> 0 \<le> n1 \<and> 0 \<le> n2"
    using item_count_monotone_and_bounded [OF h1 h2] by blast
  then show ?thesis using init h1 h2 by (intro exI[of _ ?rail] exI[of _ n1] exI[of _ n2]) simp
qed

text \<open>
  C5 as stated, for every calibration with a positive item length, fails where the full
  distance exceeds the empty distance: with empty 100, full 500 and item length 40,
  \<open>max_items\<close> is \<open>-10\<close>, and the distance 120 gives \<open>min (max (-1) 0) (-10) = -10\<close>, a count
  below 0.
\<close>

theorem item_count_below_zero_counterexample:
  "RailWidget_init 100 500 40 ''000A'' ''AA:BB'' ''a.png'' =
     Inr \<lparr> rail_esl_id = ''000A'', mac_address = ''AA:BB'',
           rail_empty_distance = 100, rail_full_distance = 500,
           item_length = 40, tolerance = 10, max_items = - 10,
           image_path = ''a.png'', progress_bar_value = 0,
           item_count_text = None, item_count_color = None \<rparr>
   \<and> update_distance
        \<lparr> rail_esl_id = ''000A'', mac_address = ''AA:BB'',
          rail_empty_distance = 100, rail_full_distance = 500,
          item_length = 40, tolerance = 10, max_items = - 10,
          image_path = ''a.png'', progress_bar_value = 0,
          item_count_text = None, item_count_color = None \<rparr> 120 =
     Inr \<lparr> rail_esl_id = ''000A'', mac_address = ''AA:BB'',
           rail_empty_distance = 100, rail_full_distance = 500,
           item_length = 40, tolerance = 10, max_items = - 10,
           image_path = ''a.png'', progress_bar_value = - 10,
           item_count_text = Some (- 10), item_count_color = None \<rparr>"
  by (simp add: RailWidget_init_def int_quarter_exact c_int_ok_def update_distance_def Let_def)

section \<open>Claims about the dispatch of messages to rails\<close>

text \<open>
  C7. For every message that carries an ID which is not a key of \<open>rails\<close>, \<open>update_shelf\<close>
  returns without an exception and with the shelf unchanged, whatever the type of the
  message. In particular, on every shelf that the constructor builds from the single ID
  \<open>0A\<close> (whose key is \<open>000A\<close>), the DISTANCE message with ID \<open>000B\<close> and distance 1
  changes nothing.
\<close>

theorem update_shelf_unknown_id:
  "(esl_id message = Some i \<and> \<not> is_rail_valid shelf i
      \<longrightarrow> update_shelf shelf message = Inr shelf)
   \<and> (esl_ids config = [''0A''] \<and> snd (ShelfWidget_init config) = Inr shelf0
      \<longrightarrow> update_shelf shelf0
            \<lparr> msg_type = DISTANCE, content = txt, esl_id = Some ''000B'', data = Some 1 \<rparr>
          = Inr shelf0)"
proof (intro conjI impI)
  assume "esl_id message = Some i \<and> \<not> is_rail_valid shelf i"
  then show "update_shelf shelf message = Inr shelf"
    by (simp add: update_shelf_def)
next
  assume a: "esl_ids config = [''0A''] \<and> snd (ShelfWidget_init config) = Inr shelf0"
  then have "snd (ShelfWidget_init config) = Inr shelf0" and "convert_ids (esl_ids config) = Inr [''000A'']"
    by (simp_all add: py_eval)
  then have "setup_ui [''000A''] (mac_addresses config) (rails_empty_distance config)
                (rails_full_distance config) (items_length config) (item_image_paths config)
             = Inr shelf0"
    by (simp add: ShelfWidget_init_def)
  then obtain rs where rs: "add_rails 0 0 [''000A''] (mac_addresses config)
        (rails_empty_distance config) (rails_full_distance config) (items_length config)
        (item_image_paths config) Map.empty = Inr rs" and s0: "rails shelf0 = rs"
    by (auto simp: setup_ui_def TOP_ROW_ELEMENTS_def TOTAL_ELEMENTS_def split: sum.splits)
  have "dom rs = {''000A''}" using rs by (rule add_rails_single_dom)
  then have "\<not> is_rail_valid shelf0 ''000B''"
    by (simp add: is_rail_valid_def s0)
  then show "update_shelf shelf0
            \<lparr> msg_type = DISTANCE, content = txt, esl_id = Some ''000B'', data = Some 1 \<rparr>
          = Inr shelf0"
    by (simp add: update_shelf_def)
qed

theorem update_shelf_unknown_id_witness:
  "parse_message ''#[ESL_ID:0b][DISTANCE:1]'' =
     Some \<lparr> msg_type = DISTANCE, content = ''#[ESL_ID:0b][DISTANCE:1]'',
            esl_id = Some ''000B'', data = Some 1 \<rparr>
   \<and> snd (ShelfWidget_init \<lparr> esl_ids = [''0A''], mac_addresses = [''AA:BB''],
                      rails_empty_distance = [500], rails_full_distance = [100],
                      items_length = [40], item_image_paths = [''a.png''] \<rparr>) =
       Inr \<lparr> rails = [''000A'' \<mapsto>
              \<lparr> rail_esl_id = ''000A'', mac_address = ''AA:BB'',
                rail_empty_distance = 500, rail_full_distance = 100,
                item_length = 40, tolerance = 10, max_items = 10,
                image_path = ''a.png'', progress_bar_value = 0,
                item_count_text = None, item_count_color = None \<rparr>] \<rparr>
   \<and> \<not> is_rail_valid \<lparr> rails = [''000A'' \<mapsto>
              \<lparr> rail_esl_id = ''000A'', mac_address = ''AA:BB'',
                rail_empty_distance = 500, rail_full_distance = 100,
                item_length = 40, tolerance = 10, max_items = 10,
                image_path = ''a.png'', progress_bar_value = 0,
                item_count_text = None, item_count_color = None \<rparr>] \<rparr> ''000B''
   \<and> update_shelf \<lparr> rails = [''000A'' \<mapsto>
              \<lparr> rail_esl_id = ''000A'', mac_address = ''AA:BB'',
                rail_empty_distance = 500, rail_full_distance = 100,
                item_length = 40, tolerance = 10, max_items = 10,
                image_path = ''a.png'', progress_bar_value = 0,
                item_count_text = None, item_count_color = None \<rparr>] \<rparr>
        \<lparr> msg_type = DISTANCE, content = ''#[ESL_ID:0b][DISTANCE:1]'',
          esl_id = Some ''000B'', data = Some 1 \<rparr>
     = Inr \<lparr> rails = [''000A'' \<mapsto>
              \<lparr> rail_esl_id = ''000A'', mac_address = ''AA:BB'',
                rail_empty_distance = 500, rail_full_distance = 100,
                item_length = 40, tolerance = 10, max_items = 10,
                image_path = ''a.png'', progress_bar_value = 0,
                item_count_text = None, item_count_color = None \<rparr>] \<rparr>"
proof -
  let ?cfg = "\<lparr> esl_ids = [''0A''], mac_addresses = [''AA:BB''],
                      rails_empty_distance = [500], rails_full_distance = [100],
                      items_length = [40], item_image_paths = [''a.png''] \<rparr>"
  let ?shelf = "\<lparr> rails = [''000A'' \<mapsto>
              \<lparr> rail_esl_id = ''000A'', mac_address = ''AA:BB'',
                rail_empty_distance = 500, rail_full_distance = 100,
                item_length = 40, tolerance = 10, max_items = 10,
                image_path = ''a.png'', progress_bar_value = 0,
                item_count_text = None, item_count_color = None \<rparr>] \<rparr>"
  let ?msg = "\<lparr> msg_type = DISTANCE, content = ''#[ESL_ID:0b][DISTANCE:1]'',
          esl_id = Some ''000B'', data = Some 1 \<rparr>"
  have p: "parse_message ''#[ESL_ID:0b][DISTANCE:1]'' = Some ?msg"
    by (simp add: parse_eval py_eval)
  have init: "snd (ShelfWidget_init ?cfg) = Inr ?shelf"
    by (simp add: shelf_0A)
  have h1: "esl_id ?msg = Some ''000B''" by simp
  have h2: "\<not> is_rail_valid ?shelf ''000B''" by (simp add: is_rail_valid_def)
  have h3: "esl_ids ?cfg = [''0A'']" by simp
  have "update_shelf ?shelf ?msg = Inr ?shelf"
    using update_shelf_unknown_id [of ?msg "''000B''" ?shelf ?cfg ?shelf "''#[ESL_ID:0b][DISTANCE:1]''"]
      h1 h2 h3 init by blast
  then show ?thesis using p init h2 by simp
qed


text \<open>
  C8. For every shelf, every rail of it and every DISCONNECTED message with the ID of that
  rail, \<open>update_shelf\<close> returns without an exception, and the shelf it leaves differs from
  the old one in one field of that rail only: the colour of the count, which becomes the
  colour of a disconnected rail, \<open>#D32F2F\<close>. The count shown, the value of the progress bar,
  the calibration and every other rail are as before.
\<close>

theorem disconnected_changes_connection_only:
  assumes "rails shelf i = Some rail"
    and "esl_id message = Some i"
    and "msg_type message = DISCONNECTED"
  shows "update_shelf shelf message =
           Inr (shelf\<lparr> rails := (rails shelf)(i \<mapsto> rail\<lparr> item_count_color := Some ''#D32F2F'' \<rparr>) \<rparr>)"
proof -
  have "is_rail_valid shelf i"
    using assms(1) by (auto simp: is_rail_valid_def)
  then show ?thesis
    using assms by (simp add: update_shelf_def update_connection_status_def)
qed

theorem disconnected_changes_connection_only_witness:
  "update_shelf
     \<lparr> rails = [''000A'' \<mapsto>
         \<lparr> rail_esl_id = ''000A'', mac_address = ''AA:BB'',
           rail_empty_distance = 500, rail_full_distance = 100,
           item_length = 40, tolerance = 10, max_items = 10,
           image_path = ''a.png'', progress_bar_value = 9,
           item_count_text = Some 9, item_count_color = Some ''#FFFFFF'' \<rparr>] \<rparr>
     \<lparr> msg_type = DISCONNECTED, content = ''#[ESL_ID:0a][TAG DISCONNECTED]'',
       esl_id = Some ''000A'', data = None \<rparr>
   = Inr \<lparr> rails = [''000A'' \<mapsto>
         \<lparr> rail_esl_id = ''000A'', mac_address = ''AA:BB'',
           rail_empty_distance = 500, rail_full_distance = 100,
           item_length = 40, tolerance = 10, max_items = 10,
           image_path = ''a.png'', progress_bar_value = 9,
           item_count_text = Some 9, item_count_color = Some ''#D32F2F'' \<rparr>] \<rparr>"
proof -
  let ?rail = "\<lparr> rail_esl_id = ''000A'', mac_address = ''AA:BB'',
           rail_empty_distance = 500, rail_full_distance = 100,
           item_length = 40, tolerance = 10, max_items = 10,
           image_path = ''a.png'', progress_bar_value = 9,
           item_count_text = Some 9, item_count_color = Some ''#FFFFFF'' \<rparr>"
  let ?shelf = "\<lparr> rails = [''000A'' \<mapsto> ?rail] \<rparr>"
  let ?msg = "\<lparr> msg_type = DISCONNECTED, content = ''#[ESL_ID:0a][TAG DISCONNECTED]'',
       esl_id = Some ''000A'', data = None \<rparr>"
  have h1: "rails ?shelf ''000A'' = Some ?rail" by simp
  have h2: "esl_id ?msg = Some ''000A''" by simp
  have h3: "msg_type ?msg = DISCONNECTED" by simp
  show ?thesis
    using disconnected_changes_connection_only [OF h1 h2 h3] by simp
qed

section \<open>Claims about the parser\<close>

text \<open>
  C1 (as amended). \<open>parse_message\<close> is total: for every line it returns without an
  exception, either one message or \<open>None\<close>, and a message carries the line, as received or with
  the white space at its ends removed. Which of the two it is: a line that does not start with
  the sentinel \<open>#\<close> gives an OTHER message with the line as received; a line with the sentinel
  whose first field has a key other than \<open>ESL_ID\<close> gives an OTHER message with the stripped
  line; a line with the sentinel and no bracketed field, a line whose only field has the key
  \<open>ESL_ID\<close>, and a line whose second field has the key DISTANCE or BATTERY and no payload
  that \<open>int\<close> accepts all give \<open>None\<close>, no message at all.
\<close>

theorem parse_message_classification:
  "(take 1 (py_strip line) \<noteq> ''#''
      \<longrightarrow> parse_message line =
            Some \<lparr> msg_type = OTHER, content = line, esl_id = None, data = None \<rparr>)
   \<and> (take 1 (py_strip line) = ''#''
        \<and> findall_fields (drop 1 (py_strip line)) = f0 # rest
        \<and> py_upper (hd (py_split CHR '':'' f0)) \<noteq> ''ESL_ID''
      \<longrightarrow> parse_message line =
            Some \<lparr> msg_type = OTHER, content = py_strip line, esl_id = None, data = None \<rparr>)
   \<and> (take 1 (py_strip line) = ''#''
        \<and> findall_fields (drop 1 (py_strip line)) = []
      \<longrightarrow> parse_message line = None)
   \<and> (take 1 (py_strip line) = ''#''
        \<and> findall_fields (drop 1 (py_strip line)) = [f0]
        \<and> py_upper (hd (py_split CHR '':'' f0)) = ''ESL_ID''
      \<longrightarrow> parse_message line = None)
   \<and> (take 1 (py_strip line) = ''#''
        \<and> findall_fields (drop 1 (py_strip line)) = f0 # f1 # rest
        \<and> py_upper (hd (py_split CHR '':'' f0)) = ''ESL_ID''
        \<and> py_upper (py_strip (hd (py_split CHR '':'' f1))) \<in> {''DISTANCE'', ''BATTERY''}
        \<and> (\<forall>k p ps. py_split CHR '':'' f1 = k # p # ps \<longrightarrow> py_int 10 (py_strip p) = None)
      \<longrightarrow> parse_message line = None)
   \<and> (parse_message line = None
        \<or> (\<exists>m. parse_message line = Some m \<and> (content m = line \<or> content m = py_strip line)))"
proof (intro conjI impI)
  assume "take 1 (py_strip line) \<noteq> ''#''"
  then show "parse_message line =
            Some \<lparr> msg_type = OTHER, content = line, esl_id = None, data = None \<rparr>"
    by (simp add: parse_message_def Message_init_def convert_esl_id_def)
next
  assume a: "take 1 (py_strip line) = ''#''
        \<and> findall_fields (drop 1 (py_strip line)) = f0 # rest
        \<and> py_upper (hd (py_split CHR '':'' f0)) \<noteq> ''ESL_ID''"
  then show "parse_message line =
            Some \<lparr> msg_type = OTHER, content = py_strip line, esl_id = None, data = None \<rparr>"
    by (simp add: parse_message_def parse_message_fields_def parse_message_fields_try_def
        py_index_def Message_init_def convert_esl_id_def)
next
  assume "take 1 (py_strip line) = ''#''
        \<and> findall_fields (drop 1 (py_strip line)) = []"
  then show "parse_message line = None"
    by (simp add: parse_message_def parse_message_fields_def parse_message_fields_try_def
        py_index_def)
next
  assume "take 1 (py_strip line) = ''#''
        \<and> findall_fields (drop 1 (py_strip line)) = [f0]
        \<and> py_upper (hd (py_split CHR '':'' f0)) = ''ESL_ID''"
  then show "parse_message line = None"
    by (auto simp: parse_message_def parse_message_fields_def parse_message_fields_try_def
        py_index_def Let_def split: sum.splits if_splits)
next
  assume a: "take 1 (py_strip line) = ''#''
        \<and> findall_fields (drop 1 (py_strip line)) = f0 # f1 # rest
        \<and> py_upper (hd (py_split CHR '':'' f0)) = ''ESL_ID''
        \<and> py_upper (py_strip (hd (py_split CHR '':'' f1))) \<in> {''DISTANCE'', ''BATTERY''}
        \<and> (\<forall>k p ps. py_split CHR '':'' f1 = k # p # ps \<longrightarrow> py_int 10 (py_strip p) = None)"
  have "py_index (py_split CHR '':'' f1) 1 = Inr p \<Longrightarrow> py_int 10 (py_strip p) = None" for p
  proof -
    assume "py_index (py_split CHR '':'' f1) 1 = Inr p"
    then obtain k ps where "py_split CHR '':'' f1 = k # p # ps"
      by (cases "py_split CHR '':'' f1" rule: list.exhaust; cases "tl (py_split CHR '':'' f1)")
         (auto simp: py_index_def split: if_splits)
    then show ?thesis using a by blast
  qed
  then have "parse_message_fields_try (py_strip line) = Inr m \<Longrightarrow> False" for m
    using a
    by (auto simp: parse_message_fields_try_def Let_def py_index_def
        split: sum.splits if_splits option.splits)
  then have "parse_message_fields (py_strip line) = None"
    by (auto simp: parse_message_fields_def split: sum.splits)
  then show "parse_message line = None"
    using a by (simp add: parse_message_def)
next
  have c: "parse_message_fields_try msg = Inr m \<Longrightarrow> content m = msg" for msg m
    by (auto simp: parse_message_fields_try_def Let_def Message_init_def
        split: sum.splits if_splits option.splits)
  show "parse_message line = None
        \<or> (\<exists>m. parse_message line = Some m \<and> (content m = line \<or> content m = py_strip line))"
    by (auto simp: parse_message_def parse_message_fields_def Let_def Message_init_def c
        split: sum.splits)
qed

theorem parse_message_classification_witness:
  "parse_message ''hello world'' =
     Some \<lparr> msg_type = OTHER, content = ''hello world'', esl_id = None, data = None \<rparr>
   \<and> parse_message '' #[FOO:0a][DISTANCE:1]'' =
     Some \<lparr> msg_type = OTHER, content = ''#[FOO:0a][DISTANCE:1]'', esl_id = None, data = None \<rparr>
   \<and> parse_message ''#no fields'' = None
   \<and> parse_message ''#[ESL_ID:0a]'' = None
   \<and> parse_message ''#[ESL_ID:0a][DISTANCE:x]'' = None"
proof -
  have a: "take 1 (py_strip ''hello world'') \<noteq> ''#''"
    by (simp add: py_strip_def py_isspace_def)
  have b: "take 1 (py_strip '' #[FOO:0a][DISTANCE:1]'') = ''#''
        \<and> findall_fields (drop 1 (py_strip '' #[FOO:0a][DISTANCE:1]'')) = ''FOO:0a'' # [''DISTANCE:1'']
        \<and> py_upper (hd (py_split CHR '':'' ''FOO:0a'')) \<noteq> ''ESL_ID''"
    by (simp add: py_strip_def py_isspace_def findall_fields_def py_upper_def upper_char_def)
  have b': "py_strip '' #[FOO:0a][DISTANCE:1]'' = ''#[FOO:0a][DISTANCE:1]''"
    by (simp add: py_strip_def py_isspace_def)
  have c: "take 1 (py_strip ''#no fields'') = ''#''
        \<and> findall_fields (drop 1 (py_strip ''#no fields'')) = []"
    by (simp add: py_strip_def py_isspace_def findall_fields_def)
  have d: "take 1 (py_strip ''#[ESL_ID:0a]'') = ''#''
        \<and> findall_fields (drop 1 (py_strip ''#[ESL_ID:0a]'')) = [''ESL_ID:0a'']
        \<and> py_upper (hd (py_split CHR '':'' ''ESL_ID:0a'')) = ''ESL_ID''"
    by (simp add: py_strip_def py_isspace_def findall_fields_def py_upper_def upper_char_def)
  have e: "take 1 (py_strip ''#[ESL_ID:0a][DISTANCE:x]'') = ''#''
        \<and> findall_fields (drop 1 (py_strip ''#[ESL_ID:0a][DISTANCE:x]'')) = ''ESL_ID:0a'' # ''DISTANCE:x'' # []
        \<and> py_upper (hd (py_split CHR '':'' ''ESL_ID:0a'')) = ''ESL_ID''
        \<and> py_upper (py_strip (hd (py_split CHR '':'' ''DISTANCE:x''))) \<in> {''DISTANCE'', ''BATTERY''}
        \<and> (\<forall>k p ps. py_split CHR '':'' ''DISTANCE:x'' = k # p # ps \<longrightarrow> py_int 10 (py_strip p) = None)"
    by (simp add: py_strip_def py_isspace_def findall_fields_def py_upper_def upper_char_def py_eval)
  show ?thesis
    using parse_message_classification [of "''hello world''"] a
      parse_message_classification [of "'' #[FOO:0a][DISTANCE:1]''" "''FOO:0a''" "[''DISTANCE:1'']"] b b'
      parse_message_classification [of "''#no fields''"] c
      parse_message_classification [of "''#[ESL_ID:0a]''" "''ESL_ID:0a''"] d
      parse_message_classification [of "''#[ESL_ID:0a][DISTANCE:x]''" "''ESL_ID:0a''" "[]" "''DISTANCE:x''"] e
    by metis
qed

text \<open>
  C1 as stated, with every malformed line degrading to an OTHER message that carries the
  text, fails on a line with the sentinel whose second field is missing: the IndexError of
  \<open>fields[1]\<close> is caught and \<open>None\<close> is returned.
\<close>

theorem malformed_line_gives_none_counterexample:
  "parse_message ''#[ESL_ID:0a]'' = None"
  by (simp add: parse_eval)

text \<open>
  C2 (as amended). For every line with the sentinel whose first field has the key
  \<open>ESL_ID\<close> and a value that is not hexadecimal: every message that \<open>parse_message\<close>
  returns has no ID and carries the stripped line, and its type is still the one the second
  field selects. A second field \<open>DISTANCE:n\<close> or \<open>BATTERY:n\<close> with an integer \<open>n\<close> gives the
  typed message with the data \<open>n\<close>, \<open>TAG DISCONNECTED\<close> gives the DISCONNECTED message, and
  every other key gives the OTHER message. There is no message at all, \<open>None\<close>, when there
  is no second field, and when the second field has the key DISTANCE or BATTERY and no
  payload that \<open>int\<close> accepts.
\<close>

theorem unparseable_id_keeps_type:
  assumes "take 1 (py_strip line) = ''#''"
    and "findall_fields (drop 1 (py_strip line)) = f0 # others"
    and "py_split CHR '':'' f0 = k # v # vs"
    and "py_upper k = ''ESL_ID''"
    and "py_int 16 (py_strip v) = None"
  shows "(\<forall>m. parse_message line = Some m \<longrightarrow> esl_id m = None \<and> content m = py_strip line)
    \<and> (others = [] \<longrightarrow> parse_message line = None)
    \<and> (others = f1 # fs \<and> py_split CHR '':'' f1 = k2 # p # ps
          \<and> py_upper (py_strip k2) = ''DISTANCE'' \<and> py_int 10 (py_strip p) = Some n
        \<longrightarrow> parse_message line =
              Some \<lparr> msg_type = DISTANCE, content = py_strip line, esl_id = None, data = Some n \<rparr>)
    \<and> (others = f1 # fs \<and> py_split CHR '':'' f1 = k2 # p # ps
          \<and> py_upper (py_strip k2) = ''BATTERY'' \<and> py_int 10 (py_strip p) = Some n
        \<longrightarrow> parse_message line =
              Some \<lparr> msg_type = BATTERY, content = py_strip line, esl_id = None, data = Some n \<rparr>)
    \<and> (others = f1 # fs
          \<and> py_upper (py_strip (hd (py_split CHR '':'' f1))) = ''TAG DISCONNECTED''
        \<longrightarrow> parse_message line =
              Some \<lparr> msg_type = DISCONNECTED, content = py_strip line, esl_id = None, data = None \<rparr>)
    \<and> (others = f1 # fs
          \<and> py_upper (py_strip (hd (py_split CHR '':'' f1)))
               \<notin> {''DISTANCE'', ''BATTERY'', ''TAG DISCONNECTED''}
        \<longrightarrow> parse_message line =
              Some \<lparr> msg_type = OTHER, content = py_strip line, esl_id = None, data = None \<rparr>)
    \<and> (others = f1 # fs
          \<and> py_upper (py_strip (hd (py_split CHR '':'' f1))) \<in> {''DISTANCE'', ''BATTERY''}
          \<and> (\<forall>k3 q qs. py_split CHR '':'' f1 = k3 # q # qs \<longrightarrow> py_int 10 (py_strip q) = None)
        \<longrightarrow> parse_message line = None)"
proof -
  have conv: "convert_esl_id (Some (py_strip v)) = None"
    using assms(5) by (simp add: convert_esl_id_def)
  have mi: "Message_init mt (py_strip line) (Some (py_strip v)) d =
              \<lparr> msg_type = mt, content = py_strip line, esl_id = None, data = d \<rparr>" for mt d
    using conv by (simp add: Message_init_def)
  have mo: "Message_init OTHER (py_strip line) None None =
              \<lparr> msg_type = OTHER, content = py_strip line, esl_id = None, data = None \<rparr>"
    by (simp add: Message_init_def convert_esl_id_def)
  have pm: "parse_message line = parse_message_fields (py_strip line)"
    using assms(1) by (simp add: parse_message_def)
  have try_nil: "parse_message_fields_try (py_strip line) = Inl IndexError" if "others = []"
    using assms(2,3,4) that
    by (simp add: parse_message_fields_try_def py_index_def Let_def)
  have try_eq: "parse_message_fields_try (py_strip line) =
     (let second_field = py_split CHR '':'' f1;
          key = py_upper (py_strip (hd second_field)) in
      if key = ''DISTANCE'' then
        (case py_index second_field 1 of
           Inl e \<Rightarrow> Inl e
         | Inr p \<Rightarrow>
             (case py_int 10 (py_strip p) of
                None \<Rightarrow> Inl ValueError
              | Some n \<Rightarrow>
                  Inr \<lparr> msg_type = DISTANCE, content = py_strip line, esl_id = None,
                        data = Some n \<rparr>))
      else if key = ''BATTERY'' then
        (case py_index second_field 1 of
           Inl e \<Rightarrow> Inl e
         | Inr p \<Rightarrow>
             (case py_int 10 (py_strip p) of
                None \<Rightarrow> Inl ValueError
              | Some n \<Rightarrow>
                  Inr \<lparr> msg_type = BATTERY, content = py_strip line, esl_id = None,
                        data = Some n \<rparr>))
      else if key = ''TAG DISCONNECTED'' then
        Inr \<lparr> msg_type = DISCONNECTED, content = py_strip line, esl_id = None, data = None \<rparr>
      else Inr \<lparr> msg_type = OTHER, content = py_strip line, esl_id = None, data = None \<rparr>)"
    if "others = f1 # fs" for f1 fs
    using assms(2,3,4) that
    by (auto simp add: parse_message_fields_try_def py_index_def mi mo Let_def
        split: option.splits)
  have part1: "\<forall>m. parse_message line = Some m \<longrightarrow> esl_id m = None \<and> content m = py_strip line"
  proof (cases others)
    case Nil
    then show ?thesis
      unfolding pm parse_message_fields_def using try_nil by simp
  next
    case (Cons g gs)
    show ?thesis
      unfolding pm parse_message_fields_def try_eq [OF Cons]
      by (auto simp: Let_def split: sum.splits if_splits option.splits)
  qed
  have part2: "parse_message line = None" if "others = []"
    unfolding pm parse_message_fields_def using try_nil [OF that] by simp
  have part3: "parse_message line =
              Some \<lparr> msg_type = DISTANCE, content = py_strip line, esl_id = None, data = Some n \<rparr>"
    if "others = f1 # fs \<and> py_split CHR '':'' f1 = k2 # p # ps
          \<and> py_upper (py_strip k2) = ''DISTANCE'' \<and> py_int 10 (py_strip p) = Some n"
  proof -
    from that have o: "others = f1 # fs" by simp
    show ?thesis
      unfolding pm parse_message_fields_def try_eq [OF o] using that
      by (simp add: Let_def py_index_def)
  qed
  have part4: "parse_message line =
              Some \<lparr> msg_type = BATTERY, content = py_strip line, esl_id = None, data = Some n \<rparr>"
    if "others = f1 # fs \<and> py_split CHR '':'' f1 = k2 # p # ps
          \<and> py_upper (py_strip k2) = ''BATTERY'' \<and> py_int 10 (py_strip p) = Some n"
  proof -
    from that have o: "others = f1 # fs" by simp
    show ?thesis
      unfolding pm parse_message_fields_def try_eq [OF o] using that
      by (simp add: Let_def py_index_def)
  qed
  have part5: "parse_message line =
              Some \<lparr> msg_type = DISCONNECTED, content = py_strip line, esl_id = None, data = None \<rparr>"
    if "others = f1 # fs
          \<and> py_upper (py_strip (hd (py_split CHR '':'' f1))) = ''TAG DISCONNECTED''"
  proof -
    from that have o: "others = f1 # fs" by simp
    show ?thesis
      unfolding pm parse_message_fields_def try_eq [OF o] using that
      by (simp add: Let_def)
  qed
  have part6: "parse_message line =
              Some \<lparr> msg_type = OTHER, content = py_strip line, esl_id = None, data = None \<rparr>"
    if "others = f1 # fs
          \<and> py_upper (py_strip (hd (py_split CHR '':'' f1)))
               \<notin> {''DISTANCE'', ''BATTERY'', ''TAG DISCONNECTED''}"
  proof -
    from that have o: "others = f1 # fs" by simp
    show ?thesis
      unfolding pm parse_message_fields_def try_eq [OF o] using that
      by (simp add: Let_def)
  qed
  have part7: "parse_message line = None"
    if t: "others = f1 # fs
          \<and> py_upper (py_strip (hd (py_split CHR '':'' f1))) \<in> {''DISTANCE'', ''BATTERY''}
          \<and> (\<forall>k3 q qs. py_split CHR '':'' f1 = k3 # q # qs \<longrightarrow> py_int 10 (py_strip q) = None)"
  proof -
    from t have o: "others = f1 # fs" by simp
    have np: "py_index (py_split CHR '':'' f1) 1 = Inr q \<Longrightarrow> py_int 10 (py_strip q) = None" for q
    proof -
      assume "py_index (py_split CHR '':'' f1) 1 = Inr q"
      then obtain k3 qs where "py_split CHR '':'' f1 = k3 # q # qs"
        by (cases "py_split CHR '':'' f1" rule: list.exhaust; cases "tl (py_split CHR '':'' f1)")
           (auto simp: py_index_def split: if_splits)
      then show ?thesis using t by blast
    qed
    have "parse_message_fields_try (py_strip line) = Inr m \<Longrightarrow> False" for m
      unfolding try_eq [OF o] using t np
      by (auto simp: Let_def split: sum.splits if_splits option.splits)
    then show ?thesis
      unfolding pm parse_message_fields_def by (auto split: sum.splits)
  qed
  show ?thesis
    using part1 part2 part3 part4 part5 part6 part7 by blast
qed

theorem unparseable_id_keeps_type_witness:
  "parse_message ''#[ESL_ID:zz][BATTERY:87]'' =
     Some \<lparr> msg_type = BATTERY, content = ''#[ESL_ID:zz][BATTERY:87]'', esl_id = None, data = Some 87 \<rparr>
   \<and> parse_message ''#[ESL_ID:zz][RSSI:-60]'' =
     Some \<lparr> msg_type = OTHER, content = ''#[ESL_ID:zz][RSSI:-60]'', esl_id = None, data = None \<rparr>
   \<and> parse_message ''#[ESL_ID:zz]'' = None"
proof -
  have z: "py_split CHR '':'' ''ESL_ID:zz'' = ''ESL_ID'' # ''zz'' # []"
    by simp
  have u: "py_upper ''ESL_ID'' = ''ESL_ID''"
    by (simp add: py_upper_def upper_char_def)
  have x: "py_int 16 (py_strip ''zz'') = None"
    by (simp add: py_strip_def py_isspace_def py_eval)
  have a1: "take 1 (py_strip ''#[ESL_ID:zz][BATTERY:87]'') = ''#''"
    by (simp add: py_strip_def py_isspace_def)
  have a2: "findall_fields (drop 1 (py_strip ''#[ESL_ID:zz][BATTERY:87]'')) = ''ESL_ID:zz'' # [''BATTERY:87'']"
    by (simp add: py_strip_def py_isspace_def findall_fields_def)
  have a3: "py_strip ''#[ESL_ID:zz][BATTERY:87]'' = ''#[ESL_ID:zz][BATTERY:87]''"
    by (simp add: py_strip_def py_isspace_def)
  have a4: "[''BATTERY:87''] = ''BATTERY:87'' # []
          \<and> py_split CHR '':'' ''BATTERY:87'' = ''BATTERY'' # ''87'' # []
          \<and> py_upper (py_strip ''BATTERY'') = ''BATTERY'' \<and> py_int 10 (py_strip ''87'') = Some 87"
    by (simp add: py_strip_def py_isspace_def py_upper_def upper_char_def py_eval)
  have b1: "take 1 (py_strip ''#[ESL_ID:zz][RSSI:-60]'') = ''#''"
    by (simp add: py_strip_def py_isspace_def)
  have b2: "findall_fields (drop 1 (py_strip ''#[ESL_ID:zz][RSSI:-60]'')) = ''ESL_ID:zz'' # [''RSSI:-60'']"
    by (simp add: py_strip_def py_isspace_def findall_fields_def)
  have b3: "py_strip ''#[ESL_ID:zz][RSSI:-60]'' = ''#[ESL_ID:zz][RSSI:-60]''"
    by (simp add: py_strip_def py_isspace_def)
  have b4: "[''RSSI:-60''] = ''RSSI:-60'' # []
          \<and> py_upper (py_strip (hd (py_split CHR '':'' ''RSSI:-60'')))
               \<notin> {''DISTANCE'', ''BATTERY'', ''TAG DISCONNECTED''}"
    by (simp add: py_strip_def py_isspace_def py_upper_def upper_char_def)
  have c1: "take 1 (py_strip ''#[ESL_ID:zz]'') = ''#''"
    by (simp add: py_strip_def py_isspace_def)
  have c2: "findall_fields (drop 1 (py_strip ''#[ESL_ID:zz]'')) = ''ESL_ID:zz'' # []"
    by (simp add: py_strip_def py_isspace_def findall_fields_def)
  note A = unparseable_id_keeps_type [OF a1 a2 z u x,
      of "''BATTERY:87''" "[]" "''BATTERY''" "''87''" "[]" 87]
  note B = unparseable_id_keeps_type [OF b1 b2 z u x, of "''RSSI:-60''" "[]"]
  note C = unparseable_id_keeps_type [OF c1 c2 z u x]
  have wa: "parse_message ''#[ESL_ID:zz][BATTERY:87]'' =
     Some \<lparr> msg_type = BATTERY, content = ''#[ESL_ID:zz][BATTERY:87]'', esl_id = None, data = Some 87 \<rparr>"
    using A [THEN conjunct2, THEN conjunct2, THEN conjunct2, THEN conjunct1, THEN mp, OF a4]
    unfolding a3 .
  have wb: "parse_message ''#[ESL_ID:zz][RSSI:-60]'' =
     Some \<lparr> msg_type = OTHER, content = ''#[ESL_ID:zz][RSSI:-60]'', esl_id = None, data = None \<rparr>"
    using B [THEN conjunct2, THEN conjunct2, THEN conjunct2, THEN conjunct2, THEN conjunct2,
          THEN conjunct1, THEN mp, OF b4]
    unfolding b3 .
  have wc: "parse_message ''#[ESL_ID:zz]'' = None"
    using C [THEN conjunct2, THEN conjunct1] by simp
  show ?thesis
    using wa wb wc by (intro conjI)
qed

text \<open>
  C2 as stated, with no typed message for an ID that is not hexadecimal, fails on
  \<open>#[ESL_ID:zz][DISTANCE:5]\<close>: the message is a DISTANCE message with the data 5 and no ID.
\<close>

theorem unparseable_id_typed_counterexample:
  "parse_message ''#[ESL_ID:zz][DISTANCE:5]'' =
     Some \<lparr> msg_type = DISTANCE, content = ''#[ESL_ID:zz][DISTANCE:5]'', esl_id = None, data = Some 5 \<rparr>"
  by (simp add: parse_eval py_eval)

text \<open>
  C4. The claim and the documentation of \<open>_convert_esl_id\<close> promise a string of four
  hexadecimal digits for every hexadecimal input. The format \<open>04X\<close> pads to four characters
  and does not cut: the input \<open>12345\<close> is converted to the five characters \<open>12345\<close>.
\<close>

theorem convert_esl_id_five_digits:
  "convert_esl_id (Some ''12345'') = Some ''12345''"
  by (simp add: py_eval)

section \<open>Claims about the construction of the shelf\<close>

text \<open>
  C6 (as amended). Let \<open>n\<close> be the number of IDs, at most 11. When every ID is hexadecimal
  and each of the other five lists (MAC addresses, empty distances, full distances, item
  lengths, image paths) has at least \<open>n\<close> entries, each of the first \<open>n\<close> item lengths being
  non-zero and below \<open>2 ^ 53\<close> in absolute value and giving a \<open>max_items\<close> that is a C
  integer, the construction succeeds whatever the lengths of the lists are otherwise. It
  logs the warning about the number of IDs exactly when that number is not 11; its keys are
  the first \<open>n\<close> canonical IDs; and a canonical ID that does not occur again among the first
  \<open>n\<close> is bound to the rail that the constructor of the rail builds from the entries at its
  own index. When every ID is hexadecimal, every calibration that the lists hold is valid
  in the same sense, and one of the other five lists has fewer than \<open>n\<close> entries, the
  construction fails with IndexError.
\<close>

theorem shelf_construction_lengths:
  "(convert_ids (esl_ids config) = Inr ids
      \<and> (\<forall>k < min (length (esl_ids config)) TOTAL_ELEMENTS.
             k < length (mac_addresses config) \<and> k < length (rails_empty_distance config)
           \<and> k < length (rails_full_distance config) \<and> k < length (items_length config)
           \<and> k < length (item_image_paths config)
           \<and> items_length config ! k \<noteq> 0 \<and> \<bar>items_length config ! k\<bar> < 2 ^ 53
           \<and> c_int_ok ((rails_empty_distance config ! k - rails_full_distance config ! k)
                         div items_length config ! k))
    \<longrightarrow> (\<exists>shelf. ShelfWidget_init config =
                    ((if length (esl_ids config) \<noteq> TOTAL_ELEMENTS
                      then [Warning_expected_ids (length (esl_ids config))] else []),
                     Inr shelf)
                \<and> dom (rails shelf) = set (take TOTAL_ELEMENTS ids)
                \<and> (\<forall>k < min (length ids) TOTAL_ELEMENTS.
                      (\<forall>j. k < j \<and> j < min (length ids) TOTAL_ELEMENTS \<longrightarrow> ids ! j \<noteq> ids ! k) \<longrightarrow>
                      (\<exists>rail. RailWidget_init (rails_empty_distance config ! k)
                                 (rails_full_distance config ! k) (items_length config ! k)
                                 (ids ! k) (mac_addresses config ! k)
                                 (item_image_paths config ! k) = Inr rail
                             \<and> rails shelf (ids ! k) = Some rail))))
   \<and> (convert_ids (esl_ids config) = Inr ids
      \<and> (\<forall>k. k < length (items_length config) \<and> k < length (rails_empty_distance config)
              \<and> k < length (rails_full_distance config) \<longrightarrow>
             items_length config ! k \<noteq> 0 \<and> \<bar>items_length config ! k\<bar> < 2 ^ 53
           \<and> c_int_ok ((rails_empty_distance config ! k - rails_full_distance config ! k)
                         div items_length config ! k))
      \<and> (length (mac_addresses config) < min (length (esl_ids config)) TOTAL_ELEMENTS
         \<or> length (rails_empty_distance config) < min (length (esl_ids config)) TOTAL_ELEMENTS
         \<or> length (rails_full_distance config) < min (length (esl_ids config)) TOTAL_ELEMENTS
         \<or> length (items_length config) < min (length (esl_ids config)) TOTAL_ELEMENTS
         \<or> length (item_image_paths config) < min (length (esl_ids config)) TOTAL_ELEMENTS)
    \<longrightarrow> snd (ShelfWidget_init config) = Inl IndexError)"
proof (intro conjI impI)
  let ?macs = "mac_addresses config" and ?empties = "rails_empty_distance config"
    and ?fulls = "rails_full_distance config" and ?lens = "items_length config"
    and ?imgs = "item_image_paths config"
  let ?n = "min (length (esl_ids config)) TOTAL_ELEMENTS"
  assume a: "convert_ids (esl_ids config) = Inr ids
      \<and> (\<forall>k < ?n.
             k < length ?macs \<and> k < length ?empties
           \<and> k < length ?fulls \<and> k < length ?lens
           \<and> k < length ?imgs
           \<and> ?lens ! k \<noteq> 0 \<and> \<bar>?lens ! k\<bar> < 2 ^ 53
           \<and> c_int_ok ((?empties ! k - ?fulls ! k) div ?lens ! k))"
  then have conv: "convert_ids (esl_ids config) = Inr ids" by simp
  have len: "length ids = length (esl_ids config)"
    using conv by (rule convert_ids_length)
  have n11: "?n = min (length ids) 11"
    using len by (simp add: TOTAL_ELEMENTS_def TOP_ROW_ELEMENTS_def BOTTOM_ROW_ELEMENTS_def)
  have entry: "k < length ?macs \<and> k < length ?empties
           \<and> k < length ?fulls \<and> k < length ?lens
           \<and> k < length ?imgs
           \<and> ?lens ! k \<noteq> 0 \<and> \<bar>?lens ! k\<bar> < 2 ^ 53
           \<and> c_int_ok ((?empties ! k - ?fulls ! k) div ?lens ! k)" if "k < min (length ids) 11" for k
    using a that n11 by simp
  define T where "T = take 7 ids"
  define B where "B = take 4 (drop 7 ids)"
  have lT: "length T = min (length ids) 7" by (simp add: T_def)
  have lB: "length B = min (length ids - 7) 4" by (simp add: B_def)
  have nT: "T ! k = ids ! k" if "k < length T" for k
    using that by (simp add: T_def)
  have nB: "B ! j = ids ! (7 + j)" if "j < length B" for j
  proof -
    have "j < 4" and "7 \<le> length ids" using that by (auto simp: B_def)
    then show ?thesis by (simp add: B_def)
  qed
  have top_ok: "\<forall>k < length T.
             0 + 0 + k < length ?macs \<and> 0 + 0 + k < length ?empties
           \<and> 0 + 0 + k < length ?fulls \<and> 0 + 0 + k < length ?lens
           \<and> 0 + 0 + k < length ?imgs
           \<and> ?lens ! (0 + 0 + k) \<noteq> 0 \<and> \<bar>?lens ! (0 + 0 + k)\<bar> < 2 ^ 53
           \<and> c_int_ok ((?empties ! (0 + 0 + k) - ?fulls ! (0 + 0 + k)) div ?lens ! (0 + 0 + k))"
  proof (intro allI impI)
    fix k assume "k < length T"
    then have "k < min (length ids) 11" using lT by simp
    from entry [OF this] show "0 + 0 + k < length ?macs \<and> 0 + 0 + k < length ?empties
           \<and> 0 + 0 + k < length ?fulls \<and> 0 + 0 + k < length ?lens
           \<and> 0 + 0 + k < length ?imgs
           \<and> ?lens ! (0 + 0 + k) \<noteq> 0 \<and> \<bar>?lens ! (0 + 0 + k)\<bar> < 2 ^ 53
           \<and> c_int_ok ((?empties ! (0 + 0 + k) - ?fulls ! (0 + 0 + k)) div ?lens ! (0 + 0 + k))"
      by simp
  qed
  obtain top_rails where t: "add_rails 0 0 T ?macs ?empties ?fulls ?lens ?imgs Map.empty
        = Inr top_rails" "dom top_rails = dom (Map.empty :: string \<rightharpoonup> RailWidget) \<union> set T"
    using add_rails_succeeds [OF top_ok] by blast
  have bot_ok: "\<forall>k < length B.
             0 + 7 + k < length ?macs \<and> 0 + 7 + k < length ?empties
           \<and> 0 + 7 + k < length ?fulls \<and> 0 + 7 + k < length ?lens
           \<and> 0 + 7 + k < length ?imgs
           \<and> ?lens ! (0 + 7 + k) \<noteq> 0 \<and> \<bar>?lens ! (0 + 7 + k)\<bar> < 2 ^ 53
           \<and> c_int_ok ((?empties ! (0 + 7 + k) - ?fulls ! (0 + 7 + k)) div ?lens ! (0 + 7 + k))"
  proof (intro allI impI)
    fix k assume "k < length B"
    then have "7 + k < min (length ids) 11" using lB by auto
    from entry [OF this] show "0 + 7 + k < length ?macs \<and> 0 + 7 + k < length ?empties
           \<and> 0 + 7 + k < length ?fulls \<and> 0 + 7 + k < length ?lens
           \<and> 0 + 7 + k < length ?imgs
           \<and> ?lens ! (0 + 7 + k) \<noteq> 0 \<and> \<bar>?lens ! (0 + 7 + k)\<bar> < 2 ^ 53
           \<and> c_int_ok ((?empties ! (0 + 7 + k) - ?fulls ! (0 + 7 + k)) div ?lens ! (0 + 7 + k))"
      by simp
  qed
  obtain all_rails where b: "add_rails 7 0 B ?macs ?empties ?fulls ?lens ?imgs top_rails
        = Inr all_rails" "dom all_rails = dom top_rails \<union> set B"
    using add_rails_succeeds [OF bot_ok] by blast
  have "take 11 ids = T @ B"
    using take_add [of 7 4 ids] by (simp add: T_def B_def)
  then have d: "dom all_rails = set (take 11 ids)"
    using t(2) b(2) by simp
  note tc = add_rails_contents [OF t(1)]
  note bc = add_rails_contents [OF b(1)]
  have contents: "\<exists>rail. RailWidget_init (?empties ! k) (?fulls ! k) (?lens ! k)
                                 (ids ! k) (?macs ! k) (?imgs ! k) = Inr rail
                             \<and> all_rails (ids ! k) = Some rail"
    if k: "k < min (length ids) 11"
      and last: "\<forall>j. k < j \<and> j < min (length ids) 11 \<longrightarrow> ids ! j \<noteq> ids ! k"
    for k
  proof (cases "k < 7")
    case True
    then have kT: "k < length T" using k lT by simp
    have lastT: "\<forall>j. k < j \<and> j < length T \<longrightarrow> T ! j \<noteq> T ! k"
    proof (intro allI impI)
      fix j assume j: "k < j \<and> j < length T"
      then have "j < min (length ids) 11" using lT by simp
      then have "ids ! j \<noteq> ids ! k" using last j by blast
      then show "T ! j \<noteq> T ! k" using nT j kT by simp
    qed
    from tc kT lastT obtain rail where
      r: "RailWidget_init (?empties ! (0 + 0 + k)) (?fulls ! (0 + 0 + k)) (?lens ! (0 + 0 + k))
            (T ! k) (?macs ! (0 + 0 + k)) (?imgs ! (0 + 0 + k)) = Inr rail"
        "top_rails (T ! k) = Some rail"
      by blast
    have "ids ! k \<notin> set B"
    proof
      assume "ids ! k \<in> set B"
      then obtain j where j: "j < length B" "B ! j = ids ! k"
        by (auto simp: in_set_conv_nth)
      then have "7 + j < min (length ids) 11" using lB by auto
      moreover have "k < 7 + j" using True by simp
      ultimately have "ids ! (7 + j) \<noteq> ids ! k" using last by blast
      then show False using j nB by simp
    qed
    then have "all_rails (ids ! k) = top_rails (ids ! k)" using bc by blast
    then show ?thesis using r nT [OF kT] by simp
  next
    case False
    then obtain j where j: "k = 7 + j" using le_Suc_ex [of 7 k] by auto
    then have jB: "j < length B" using k lB by auto
    have lastB: "\<forall>i. j < i \<and> i < length B \<longrightarrow> B ! i \<noteq> B ! j"
    proof (intro allI impI)
      fix i assume i: "j < i \<and> i < length B"
      then have "7 + i < min (length ids) 11" using lB by auto
      moreover have "k < 7 + i" using j i by simp
      ultimately have "ids ! (7 + i) \<noteq> ids ! k" using last by blast
      then show "B ! i \<noteq> B ! j" using nB i jB j by simp
    qed
    from bc jB lastB obtain rail where
      r: "RailWidget_init (?empties ! (0 + 7 + j)) (?fulls ! (0 + 7 + j)) (?lens ! (0 + 7 + j))
            (B ! j) (?macs ! (0 + 7 + j)) (?imgs ! (0 + 7 + j)) = Inr rail"
        "all_rails (B ! j) = Some rail"
      by blast
    then show ?thesis using nB [OF jB] j by simp
  qed
  have "setup_ui ids ?macs ?empties ?fulls ?lens ?imgs = Inr \<lparr> rails = all_rails \<rparr>"
    using t(1) b(1)
    by (simp add: setup_ui_def TOTAL_ELEMENTS_def TOP_ROW_ELEMENTS_def BOTTOM_ROW_ELEMENTS_def
        T_def B_def)
  then have i: "ShelfWidget_init config =
                    ((if length (esl_ids config) \<noteq> TOTAL_ELEMENTS
                      then [Warning_expected_ids (length (esl_ids config))] else []),
                     Inr \<lparr> rails = all_rails \<rparr>)"
    using conv by (simp add: ShelfWidget_init_def)
  have e11: "TOTAL_ELEMENTS = 11"
    by (simp add: TOTAL_ELEMENTS_def TOP_ROW_ELEMENTS_def BOTTOM_ROW_ELEMENTS_def)
  have d': "dom (rails \<lparr> rails = all_rails \<rparr>) = set (take TOTAL_ELEMENTS ids)"
    using d e11 by simp
  have c': "\<forall>k < min (length ids) TOTAL_ELEMENTS.
                      (\<forall>j. k < j \<and> j < min (length ids) TOTAL_ELEMENTS \<longrightarrow> ids ! j \<noteq> ids ! k) \<longrightarrow>
                      (\<exists>rail. RailWidget_init (?empties ! k) (?fulls ! k) (?lens ! k)
                                 (ids ! k) (?macs ! k) (?imgs ! k) = Inr rail
                             \<and> rails \<lparr> rails = all_rails \<rparr> (ids ! k) = Some rail)"
    unfolding e11 using contents by simp
  show "\<exists>shelf. ShelfWidget_init config =
                    ((if length (esl_ids config) \<noteq> TOTAL_ELEMENTS
                      then [Warning_expected_ids (length (esl_ids config))] else []),
                     Inr shelf)
                \<and> dom (rails shelf) = set (take TOTAL_ELEMENTS ids)
                \<and> (\<forall>k < min (length ids) TOTAL_ELEMENTS.
                      (\<forall>j. k < j \<and> j < min (length ids) TOTAL_ELEMENTS \<longrightarrow> ids ! j \<noteq> ids ! k) \<longrightarrow>
                      (\<exists>rail. RailWidget_init (?empties ! k) (?fulls ! k) (?lens ! k)
                                 (ids ! k) (?macs ! k) (?imgs ! k) = Inr rail
                             \<and> rails shelf (ids ! k) = Some rail))"
    using i d' c' by (intro exI [of _ "\<lparr> rails = all_rails \<rparr>"] conjI)
next
  let ?macs = "mac_addresses config" and ?empties = "rails_empty_distance config"
    and ?fulls = "rails_full_distance config" and ?lens = "items_length config"
    and ?imgs = "item_image_paths config"
  let ?n = "min (length (esl_ids config)) TOTAL_ELEMENTS"
  assume a: "convert_ids (esl_ids config) = Inr ids
      \<and> (\<forall>k. k < length ?lens \<and> k < length ?empties \<and> k < length ?fulls \<longrightarrow>
             ?lens ! k \<noteq> 0 \<and> \<bar>?lens ! k\<bar> < 2 ^ 53
           \<and> c_int_ok ((?empties ! k - ?fulls ! k) div ?lens ! k))
      \<and> (length ?macs < ?n \<or> length ?empties < ?n \<or> length ?fulls < ?n
         \<or> length ?lens < ?n \<or> length ?imgs < ?n)"
  then have conv: "convert_ids (esl_ids config) = Inr ids"
    and valid: "\<forall>k. k < length ?lens \<and> k < length ?empties \<and> k < length ?fulls \<longrightarrow>
             ?lens ! k \<noteq> 0 \<and> \<bar>?lens ! k\<bar> < 2 ^ 53
           \<and> c_int_ok ((?empties ! k - ?fulls ! k) div ?lens ! k)"
    and short: "length ?macs < ?n \<or> length ?empties < ?n \<or> length ?fulls < ?n
         \<or> length ?lens < ?n \<or> length ?imgs < ?n"
    by simp_all
  have len: "length ids = length (esl_ids config)"
    using conv by (rule convert_ids_length)
  have no_success: "setup_ui ids ?macs ?empties ?fulls ?lens ?imgs \<noteq> Inr shelf" for shelf
  proof
    assume "setup_ui ids ?macs ?empties ?fulls ?lens ?imgs = Inr shelf"
    then obtain top_rails all_rails where
        t: "add_rails 0 0 (take 7 ids) ?macs ?empties ?fulls ?lens ?imgs Map.empty = Inr top_rails"
      and b: "add_rails 7 0 (take 4 (drop 7 ids)) ?macs ?empties ?fulls ?lens ?imgs top_rails = Inr all_rails"
      by (auto simp: setup_ui_def TOTAL_ELEMENTS_def TOP_ROW_ELEMENTS_def BOTTOM_ROW_ELEMENTS_def
          split: sum.splits)
    have in_range: "k < length ?macs \<and> k < length ?empties \<and> k < length ?fulls
        \<and> k < length ?lens \<and> k < length ?imgs" if "k < ?n" for k
    proof (cases "k < 7")
      case True
      then have "k < length (take 7 ids)"
        using that len by (simp add: TOTAL_ELEMENTS_def TOP_ROW_ELEMENTS_def BOTTOM_ROW_ELEMENTS_def)
      then show ?thesis using add_rails_in_range [OF t] by force
    next
      case False
      then obtain j where j: "k = 7 + j" using le_Suc_ex [of 7 k] by auto
      then have "j < length (take 4 (drop 7 ids))"
        using that len by (auto simp: TOTAL_ELEMENTS_def TOP_ROW_ELEMENTS_def BOTTOM_ROW_ELEMENTS_def)
      then show ?thesis using add_rails_in_range [OF b] j by force
    qed
    have "?n \<le> length ?macs \<and> ?n \<le> length ?empties \<and> ?n \<le> length ?fulls
        \<and> ?n \<le> length ?lens \<and> ?n \<le> length ?imgs"
    proof (cases "?n")
      case 0
      then show ?thesis by simp
    next
      case (Suc m)
      then have "m < ?n" by simp
      from in_range [OF this] show ?thesis using Suc by simp
    qed
    then show False using short by linarith
  qed
  have only_index: "setup_ui ids ?macs ?empties ?fulls ?lens ?imgs = Inl e \<Longrightarrow> e = IndexError" for e
    using add_rails_error [OF valid]
    by (auto simp: setup_ui_def split: sum.splits)
  have "setup_ui ids ?macs ?empties ?fulls ?lens ?imgs = Inl IndexError"
  proof (cases "setup_ui ids ?macs ?empties ?fulls ?lens ?imgs")
    case (Inl e)
    then show ?thesis using only_index by simp
  next
    case (Inr shelf)
    then show ?thesis using no_success by simp
  qed
  then show "snd (ShelfWidget_init config) = Inl IndexError"
    using conv by (simp add: ShelfWidget_init_def)
qed

theorem shelf_construction_lengths_witness:
  "(\<exists>shelf. ShelfWidget_init
        \<lparr> esl_ids = [''0A'', ''0B''], mac_addresses = [''AA:01'', ''AA:02'', ''AA:03''],
          rails_empty_distance = [500, 600, 700], rails_full_distance = [100, 100, 100],
          items_length = [40, 50, 60], item_image_paths = [''a.png'', ''b.png'', ''c.png''] \<rparr>
      = ([Warning_expected_ids 2], Inr shelf)
      \<and> dom (rails shelf) = {''000A'', ''000B''}
      \<and> rails shelf ''000B'' =
          Some \<lparr> rail_esl_id = ''000B'', mac_address = ''AA:02'',
                 rail_empty_distance = 600, rail_full_distance = 100,
                 item_length = 50, tolerance = 12, max_items = 10,
                 image_path = ''b.png'', progress_bar_value = 0,
                 item_count_text = None, item_count_color = None \<rparr>)
   \<and> snd (ShelfWidget_init
        \<lparr> esl_ids = [''0A'', ''0B'', ''0C''], mac_addresses = [''AA:01'', ''AA:02'', ''AA:03''],
          rails_empty_distance = [500, 500, 500], rails_full_distance = [100, 100],
          items_length = [40, 40, 40], item_image_paths = [''a.png'', ''b.png'', ''c.png''] \<rparr>)
      = Inl IndexError"
proof -
  let ?A = "\<lparr> esl_ids = [''0A'', ''0B''], mac_addresses = [''AA:01'', ''AA:02'', ''AA:03''],
          rails_empty_distance = [500, 600, 700], rails_full_distance = [100, 100, 100],
          items_length = [40, 50, 60], item_image_paths = [''a.png'', ''b.png'', ''c.png''] \<rparr>"
  let ?B = "\<lparr> esl_ids = [''0A'', ''0B'', ''0C''], mac_addresses = [''AA:01'', ''AA:02'', ''AA:03''],
          rails_empty_distance = [500, 500, 500], rails_full_distance = [100, 100],
          items_length = [40, 40, 40], item_image_paths = [''a.png'', ''b.png'', ''c.png''] \<rparr>"
  have e11: "TOTAL_ELEMENTS = 11"
    by (simp add: TOTAL_ELEMENTS_def TOP_ROW_ELEMENTS_def BOTTOM_ROW_ELEMENTS_def)
  have a1: "convert_ids (esl_ids ?A) = Inr [''000A'', ''000B'']"
    by (simp add: py_eval)
  have a2: "\<forall>k < min (length (esl_ids ?A)) TOTAL_ELEMENTS.
             k < length (mac_addresses ?A) \<and> k < length (rails_empty_distance ?A)
           \<and> k < length (rails_full_distance ?A) \<and> k < length (items_length ?A)
           \<and> k < length (item_image_paths ?A)
           \<and> items_length ?A ! k \<noteq> 0 \<and> \<bar>items_length ?A ! k\<bar> < 2 ^ 53
           \<and> c_int_ok ((rails_empty_distance ?A ! k - rails_full_distance ?A ! k)
                         div items_length ?A ! k)"
    by (simp add: e11 All_less_Suc c_int_ok_def)
  have b1: "convert_ids (esl_ids ?B) = Inr [''000A'', ''000B'', ''000C'']"
    by (simp add: py_eval)
  have b2: "\<forall>k. k < length (items_length ?B) \<and> k < length (rails_empty_distance ?B)
              \<and> k < length (rails_full_distance ?B) \<longrightarrow>
             items_length ?B ! k \<noteq> 0 \<and> \<bar>items_length ?B ! k\<bar> < 2 ^ 53
           \<and> c_int_ok ((rails_empty_distance ?B ! k - rails_full_distance ?B ! k)
                         div items_length ?B ! k)"
    by (auto simp: less_Suc_eq c_int_ok_def)
  have b3: "length (mac_addresses ?B) < min (length (esl_ids ?B)) TOTAL_ELEMENTS
         \<or> length (rails_empty_distance ?B) < min (length (esl_ids ?B)) TOTAL_ELEMENTS
         \<or> length (rails_full_distance ?B) < min (length (esl_ids ?B)) TOTAL_ELEMENTS
         \<or> length (items_length ?B) < min (length (esl_ids ?B)) TOTAL_ELEMENTS
         \<or> length (item_image_paths ?B) < min (length (esl_ids ?B)) TOTAL_ELEMENTS"
    by (simp add: e11)
  note A = shelf_construction_lengths [of ?A "[''000A'', ''000B'']",
      THEN conjunct1, THEN mp, OF conjI [OF a1 a2]]
  note B = shelf_construction_lengths [of ?B "[''000A'', ''000B'', ''000C'']",
      THEN conjunct2, THEN mp, OF conjI [OF b1 conjI [OF b2 b3]]]
  from A obtain shelf where
      s1: "ShelfWidget_init ?A =
             ((if length (esl_ids ?A) \<noteq> TOTAL_ELEMENTS
               then [Warning_expected_ids (length (esl_ids ?A))] else []), Inr shelf)"
    and s2: "dom (rails shelf) = set (take TOTAL_ELEMENTS [''000A'', ''000B''])"
    and s3: "\<forall>k < min (length [''000A'', ''000B'']) TOTAL_ELEMENTS.
               (\<forall>j. k < j \<and> j < min (length [''000A'', ''000B'']) TOTAL_ELEMENTS
                   \<longrightarrow> [''000A'', ''000B''] ! j \<noteq> [''000A'', ''000B''] ! k) \<longrightarrow>
               (\<exists>rail. RailWidget_init (rails_empty_distance ?A ! k)
                          (rails_full_distance ?A ! k) (items_length ?A ! k)
                          ([''000A'', ''000B''] ! k) (mac_addresses ?A ! k)
                          (item_image_paths ?A ! k) = Inr rail
                      \<and> rails shelf ([''000A'', ''000B''] ! k) = Some rail)"
    by (elim exE conjE)
  have k1: "Suc 0 < min (length [''000A'', ''000B'']) TOTAL_ELEMENTS" by (simp add: e11)
  have l1: "\<forall>j. Suc 0 < j \<and> j < min (length [''000A'', ''000B'']) TOTAL_ELEMENTS
                   \<longrightarrow> [''000A'', ''000B''] ! j \<noteq> [''000A'', ''000B''] ! Suc 0"
    by (simp add: e11)
  from s3 [THEN spec, THEN mp, OF k1, THEN mp, OF l1] obtain rail where
      "RailWidget_init (rails_empty_distance ?A ! Suc 0)
                          (rails_full_distance ?A ! Suc 0) (items_length ?A ! Suc 0)
                          ([''000A'', ''000B''] ! Suc 0) (mac_addresses ?A ! Suc 0)
                          (item_image_paths ?A ! Suc 0) = Inr rail"
      "rails shelf ([''000A'', ''000B''] ! Suc 0) = Some rail"
    by (elim exE conjE)
  then have r: "rails shelf ''000B'' =
          Some \<lparr> rail_esl_id = ''000B'', mac_address = ''AA:02'',
                 rail_empty_distance = 600, rail_full_distance = 100,
                 item_length = 50, tolerance = 12, max_items = 10,
                 image_path = ''b.png'', progress_bar_value = 0,
                 item_count_text = None, item_count_color = None \<rparr>"
    by (simp add: RailWidget_init_def int_quarter_exact c_int_ok_def)
  have w1: "ShelfWidget_init ?A = ([Warning_expected_ids 2], Inr shelf)"
    using s1 by (simp add: e11)
  have w2: "dom (rails shelf) = {''000A'', ''000B''}"
    using s2 by (simp add: e11)
  show ?thesis
    using w1 w2 r B by (intro conjI exI [of _ shelf])
qed

text \<open>
  C6 as stated, with no failure for lists of unequal lengths, fails when a list is shorter
  than the list of IDs: with two IDs and one entry in each other list, the warning is logged
  and the second rail raises IndexError, which nothing catches.
\<close>

theorem shelf_construction_short_list_counterexample:
  "ShelfWidget_init
     \<lparr> esl_ids = [''0A'', ''0B''], mac_addresses = [''AA:01''],
       rails_empty_distance = [500], rails_full_distance = [100],
       items_length = [40], item_image_paths = [''a.png''] \<rparr>
   = ([Warning_expected_ids 2], Inl IndexError)"
  by (simp add: ShelfWidget_init_def setup_ui_def TOTAL_ELEMENTS_def TOP_ROW_ELEMENTS_def
      BOTTOM_ROW_ELEMENTS_def py_index_def py_eval rail_500_100_40)

section \<open>Claims about the serial link\<close>

text \<open>
  C9 (as amended). For every send on a port that is not open, \<open>send_message\<close> returns
  normally and leaves the handler as it was but for one record in the log, "Cannot send
  message. Serial Port is closed.": nothing is handed to \<open>write\<close>, no signal is emitted and
  no exception reaches the caller. For every send on an open port, \<open>send_message\<close> returns
  normally, the port stays open, and what is handed to \<open>write\<close> is the text with exactly one
  line feed appended.
\<close>

theorem send_message_closed_and_open:
  "(\<not> serial_isOpen h
      \<longrightarrow> send_message env h text = (None, h\<lparr> logged := logged h @ [Error_cannot_send] \<rparr>))
   \<and> (serial_isOpen h
      \<longrightarrow> fst (send_message env h text) = None
        \<and> serial_written (snd (send_message env h text)) = serial_written h @ [text @ [CHR 0x0A]]
        \<and> serial_isOpen (snd (send_message env h text)))"
  by (simp add: send_message_def Let_def)

theorem send_message_closed_and_open_witness:
  "send_message qt_env_ok new_SerialHandler ''PING'' =
     (None, new_SerialHandler\<lparr> logged := [Error_cannot_send] \<rparr>)
   \<and> serial_written (snd (send_message qt_env_ok (new_SerialHandler\<lparr> serial_isOpen := True \<rparr>) ''PING''))
       = [''PING'' @ [CHR 0x0A]]"
proof -
  have c: "\<not> serial_isOpen new_SerialHandler"
    by (simp add: new_SerialHandler_def)
  have l: "logged new_SerialHandler = []" and w: "serial_written new_SerialHandler = []"
    by (simp_all add: new_SerialHandler_def)
  have "send_message qt_env_ok new_SerialHandler ''PING'' =
          (None, new_SerialHandler\<lparr> logged := logged new_SerialHandler @ [Error_cannot_send] \<rparr>)"
    using send_message_closed_and_open [of new_SerialHandler qt_env_ok "''PING''"] c by blast
  moreover have "serial_written (snd (send_message qt_env_ok (new_SerialHandler\<lparr> serial_isOpen := True \<rparr>) ''PING''))
       = serial_written (new_SerialHandler\<lparr> serial_isOpen := True \<rparr>) @ [''PING'' @ [CHR 0x0A]]"
    using send_message_closed_and_open [of "new_SerialHandler\<lparr> serial_isOpen := True \<rparr>" qt_env_ok "''PING''"]
    by simp
  ultimately show ?thesis using l w by simp
qed

text \<open>
  C9 as stated, with the rejection reported to the caller, fails on the send of \<open>PING\<close>
  on the closed port of a new handler: the method returns normally, without an exception
  and without a signal; the record in the log is all there is.
\<close>

theorem send_while_closed_not_reported_counterexample:
  "fst (send_message qt_env_ok new_SerialHandler ''PING'') = None
   \<and> emitted (snd (send_message qt_env_ok new_SerialHandler ''PING'')) = []
   \<and> logged (snd (send_message qt_env_ok new_SerialHandler ''PING'')) = [Error_cannot_send]"
  by (simp add: send_message_def new_SerialHandler_def)

text \<open>
  C10 (as amended). A configuration without a port, or with an empty one, is a fatal error
  of the attempt to open: \<open>configure_serial\<close> logs and raises ValueError with no setting
  changed, the constructor fails with it, and \<open>update_serial_config\<close> catches it, logs it
  and leaves the link closed, an open link having been closed before. A parity outside the
  allowed set is fatal too (for a port that is given and a baud rate that is a C integer):
  \<open>configure_serial\<close> raises TypeError, which nothing catches, so the constructor and
  \<open>update_serial_config\<close> fail with it, the open is not reached and the link is closed.
  With a port, such a baud rate and a parity of the allowed set, no value of \<open>data_bits\<close>,
  \<open>stop_bits\<close> or \<open>flow_control\<close> is an error and none is logged: a number of data bits
  other than 5, 6, 7, 8 is replaced by 8, a number of stop bits other than 1, 1.5, 2 by 1, a
  flow control other than None, RTS/CTS, XON/XOFF by none, and the constructor goes on to
  open the port, which is open afterwards exactly when \<open>QSerialPort.open\<close> succeeds.
\<close>

theorem configuration_errors:
  "(port config = None \<or> port config = Some []
      \<longrightarrow> configure_serial env config h =
            (Some ValueError, h\<lparr> logged := logged h @ [Error_configuration] \<rparr>)
        \<and> SerialHandler_init env config =
            (Some ValueError, new_SerialHandler\<lparr> logged := [Error_configuration] \<rparr>)
        \<and> fst (update_serial_config env config h) = None
        \<and> \<not> serial_isOpen (snd (update_serial_config env config h))
        \<and> logged (snd (update_serial_config env config h)) =
            logged h @ [Error_configuration, Error_update_failed])
   \<and> (port config = Some name \<and> name \<noteq> []
        \<and> c_int_ok (case baudrate config of None \<Rightarrow> DEFAULT_BAUDRATE | Some b \<Rightarrow> b)
        \<and> parity config = Some p
        \<and> p \<notin> {''None'', ''Even'', ''Odd'', ''Mark'', ''Space''}
      \<longrightarrow> fst (configure_serial env config h) = Some TypeError
        \<and> serial_isOpen (snd (configure_serial env config h)) = serial_isOpen h
        \<and> fst (SerialHandler_init env config) = Some TypeError
        \<and> \<not> serial_isOpen (snd (SerialHandler_init env config))
        \<and> fst (update_serial_config env config h) = Some TypeError
        \<and> \<not> serial_isOpen (snd (update_serial_config env config h)))
   \<and> (port config = Some name \<and> name \<noteq> []
        \<and> c_int_ok (case baudrate config of None \<Rightarrow> DEFAULT_BAUDRATE | Some b \<Rightarrow> b)
        \<and> parity config \<in> {None, Some ''None'', Some ''Even'', Some ''Odd'', Some ''Mark'', Some ''Space''}
      \<longrightarrow> fst (configure_serial env config h) = None
        \<and> logged (snd (configure_serial env config h)) = logged h
        \<and> (\<forall>n. data_bits config = Some n \<and> n \<notin> {5, 6, 7, 8}
              \<longrightarrow> serial_dataBits (snd (configure_serial env config h)) = Data8)
        \<and> (\<forall>s. stop_bits config = Some s \<and> s \<notin> {1, 3 / 2, 2}
              \<longrightarrow> serial_stopBits (snd (configure_serial env config h)) = OneStop)
        \<and> (\<forall>f. flow_control config = Some f \<and> f \<notin> {''None'', ''RTS/CTS'', ''XON/XOFF''}
              \<longrightarrow> serial_flowControl (snd (configure_serial env config h)) = NoFlowControl)
        \<and> fst (SerialHandler_init env config) = None
        \<and> serial_isOpen (snd (SerialHandler_init env config)) = open_succeeds env)"
proof (intro conjI impI)
  assume a: "port config = None \<or> port config = Some []"
  show c: "configure_serial env config h =
            (Some ValueError, h\<lparr> logged := logged h @ [Error_configuration] \<rparr>)" for h
    using a by (auto simp: configure_serial_def set_port_name_def)
  show "SerialHandler_init env config =
            (Some ValueError, new_SerialHandler\<lparr> logged := [Error_configuration] \<rparr>)"
    by (simp add: SerialHandler_init_def c) (simp add: new_SerialHandler_def)
  show "fst (update_serial_config env config h) = None"
    by (simp add: update_serial_config_def c Let_def)
  show "\<not> serial_isOpen (snd (update_serial_config env config h))"
    by (simp add: update_serial_config_def c Let_def close_serial_def)
  show "logged (snd (update_serial_config env config h)) =
            logged h @ [Error_configuration, Error_update_failed]"
    by (simp add: update_serial_config_def c Let_def close_serial_def)
next
  assume a: "port config = Some name \<and> name \<noteq> []
        \<and> c_int_ok (case baudrate config of None \<Rightarrow> DEFAULT_BAUDRATE | Some b \<Rightarrow> b)
        \<and> parity config = Some p
        \<and> p \<notin> {''None'', ''Even'', ''Odd'', ''Mark'', ''Space''}"
  then have sp: "set_parity p h' = (Some TypeError, h')" for h'
    by (simp add: set_parity_def)
  have c: "fst (configure_serial env config h0) = Some TypeError
      \<and> serial_isOpen (snd (configure_serial env config h0)) = serial_isOpen h0" for h0
    using a
    by (simp add: configure_serial_def set_port_name_def set_baudrate_def set_data_bits_def
        sp Let_def)
  show "fst (configure_serial env config h) = Some TypeError"
    using c by simp
  show "serial_isOpen (snd (configure_serial env config h)) = serial_isOpen h"
    using c by simp
  have i: "SerialHandler_init env config = configure_serial env config new_SerialHandler"
    using c [of new_SerialHandler]
    by (cases "configure_serial env config new_SerialHandler")
       (simp add: SerialHandler_init_def)
  show "fst (SerialHandler_init env config) = Some TypeError"
    using c [of new_SerialHandler] by (simp add: i)
  show "\<not> serial_isOpen (snd (SerialHandler_init env config))"
    using c [of new_SerialHandler] by (simp add: i new_SerialHandler_def)
  define h1 where "h1 = (if serial_isOpen h then snd (close_serial h) else h)"
  have closed: "\<not> serial_isOpen h1"
    by (simp add: h1_def close_serial_def)
  have u: "update_serial_config env config h = configure_serial env config h1"
    using c [of h1]
    by (cases "configure_serial env config h1")
       (simp add: update_serial_config_def Let_def h1_def [symmetric])
  show "fst (update_serial_config env config h) = Some TypeError"
    using c [of h1] by (simp add: u)
  show "\<not> serial_isOpen (snd (update_serial_config env config h))"
    using c [of h1] closed by (simp add: u)
next
  assume a: "port config = Some name \<and> name \<noteq> []
        \<and> c_int_ok (case baudrate config of None \<Rightarrow> DEFAULT_BAUDRATE | Some b \<Rightarrow> b)
        \<and> parity config \<in> {None, Some ''None'', Some ''Even'', Some ''Odd'', Some ''Mark'', Some ''Space''}"
  define pstr where "pstr = (case parity config of None \<Rightarrow> DEFAULT_PARITY | Some p \<Rightarrow> p)"
  have pin: "pstr \<in> {''None'', ''Even'', ''Odd'', ''Mark'', ''Space''}"
    using a by (auto simp: pstr_def DEFAULT_PARITY_def)
  have sp: "fst (set_parity pstr h') = None
      \<and> serial_dataBits (snd (set_parity pstr h')) = serial_dataBits h'
      \<and> serial_isOpen (snd (set_parity pstr h')) = serial_isOpen h'
      \<and> logged (snd (set_parity pstr h')) = logged h'" for h'
    using pin by (auto simp: set_parity_def)
  define h3 where "h3 h0 = set_data_bits (case data_bits config of None \<Rightarrow> DEFAULT_DATA_BITS | Some n \<Rightarrow> n)
      (h0\<lparr> serial_portName := short_port_name env name,
           serial_baudRate := (case baudrate config of None \<Rightarrow> DEFAULT_BAUDRATE | Some b \<Rightarrow> b) \<rparr>)" for h0
  define h4 where "h4 h0 = snd (set_parity pstr (h3 h0))" for h0
  have c: "configure_serial env config h0 =
      (None, set_flow_control (case flow_control config of None \<Rightarrow> DEFAULT_FLOW_CONTROL | Some f \<Rightarrow> f)
               (set_stop_bits (case stop_bits config of None \<Rightarrow> DEFAULT_STOP_BITS | Some s \<Rightarrow> s)
                  (h4 h0)))" for h0
  proof -
    obtain e4 x4 where e4: "set_parity pstr (h3 h0) = (e4, x4)" by (cases "set_parity pstr (h3 h0)")
    then have "e4 = None" and "x4 = h4 h0"
      using sp [of "h3 h0"] by (simp_all add: h4_def)
    then show ?thesis
      using a e4 by (simp add: configure_serial_def set_port_name_def set_baudrate_def Let_def
          pstr_def [symmetric] h3_def [symmetric])
  qed
  have h4_fields: "serial_dataBits (h4 h0) = serial_dataBits (h3 h0)"
      "serial_isOpen (h4 h0) = serial_isOpen h0" "logged (h4 h0) = logged h0" for h0
    using sp [of "h3 h0"] by (simp_all add: h4_def h3_def set_data_bits_def)
  show "fst (configure_serial env config h) = None"
    by (simp add: c)
  show "logged (snd (configure_serial env config h)) = logged h"
    by (simp add: c set_flow_control_def set_stop_bits_def h4_fields)
  show "\<forall>n. data_bits config = Some n \<and> n \<notin> {5, 6, 7, 8}
              \<longrightarrow> serial_dataBits (snd (configure_serial env config h)) = Data8"
    by (simp add: c set_flow_control_def set_stop_bits_def h4_fields h3_def set_data_bits_def)
  show "\<forall>s. stop_bits config = Some s \<and> s \<notin> {1, 3 / 2, 2}
              \<longrightarrow> serial_stopBits (snd (configure_serial env config h)) = OneStop"
    by (simp add: c set_flow_control_def set_stop_bits_def)
  show "\<forall>f. flow_control config = Some f \<and> f \<notin> {''None'', ''RTS/CTS'', ''XON/XOFF''}
              \<longrightarrow> serial_flowControl (snd (configure_serial env config h)) = NoFlowControl"
    by (simp add: c set_flow_control_def)
  have closed: "\<not> serial_isOpen (snd (configure_serial env config new_SerialHandler))"
    by (simp add: c set_flow_control_def set_stop_bits_def h4_fields) (simp add: new_SerialHandler_def)
  show "fst (SerialHandler_init env config) = None"
    by (simp add: SerialHandler_init_def c open_serial_def Let_def)
  show "serial_isOpen (snd (SerialHandler_init env config)) = open_succeeds env"
    using closed by (simp add: SerialHandler_init_def c open_serial_def Let_def handle_error_def)
qed

theorem configuration_errors_witness:
  "SerialHandler_init qt_env_ok
       \<lparr> port = None, baudrate = Some 9600, data_bits = Some 8, parity = Some ''None'',
         stop_bits = Some 1, flow_control = Some ''None'' \<rparr>
     = (Some ValueError, new_SerialHandler\<lparr> logged := [Error_configuration] \<rparr>)
   \<and> \<not> serial_isOpen (snd (update_serial_config qt_env_ok
       \<lparr> port = None, baudrate = Some 9600, data_bits = Some 8, parity = Some ''None'',
         stop_bits = Some 1, flow_control = Some ''None'' \<rparr>
       (new_SerialHandler\<lparr> serial_isOpen := True \<rparr>)))
   \<and> fst (update_serial_config qt_env_ok
       \<lparr> port = Some ''COM1'', baudrate = Some 9600, data_bits = Some 8, parity = Some ''Foo'',
         stop_bits = Some 1, flow_control = Some ''None'' \<rparr>
       (new_SerialHandler\<lparr> serial_isOpen := True \<rparr>)) = Some TypeError
   \<and> \<not> serial_isOpen (snd (update_serial_config qt_env_ok
       \<lparr> port = Some ''COM1'', baudrate = Some 9600, data_bits = Some 8, parity = Some ''Foo'',
         stop_bits = Some 1, flow_control = Some ''None'' \<rparr>
       (new_SerialHandler\<lparr> serial_isOpen := True \<rparr>)))
   \<and> serial_dataBits (snd (configure_serial qt_env_ok
       \<lparr> port = Some ''COM1'', baudrate = None, data_bits = Some 9, parity = Some ''Even'',
         stop_bits = Some 3, flow_control = Some ''DTR'' \<rparr> new_SerialHandler)) = Data8
   \<and> serial_stopBits (snd (configure_serial qt_env_ok
       \<lparr> port = Some ''COM1'', baudrate = None, data_bits = Some 9, parity = Some ''Even'',
         stop_bits = Some 3, flow_control = Some ''DTR'' \<rparr> new_SerialHandler)) = OneStop
   \<and> serial_flowControl (snd (configure_serial qt_env_ok
       \<lparr> port = Some ''COM1'', baudrate = None, data_bits = Some 9, parity = Some ''Even'',
         stop_bits = Some 3, flow_control = Some ''DTR'' \<rparr> new_SerialHandler)) = NoFlowControl
   \<and> serial_isOpen (snd (SerialHandler_init qt_env_ok
       \<lparr> port = Some ''COM1'', baudrate = None, data_bits = Some 9, parity = Some ''Even'',
         stop_bits = Some 3, flow_control = Some ''DTR'' \<rparr>))"
proof -
  let ?bad = "\<lparr> port = None, baudrate = Some 9600, data_bits = Some 8, parity = Some ''None'',
         stop_bits = Some 1, flow_control = Some ''None'' \<rparr>"
  let ?foo = "\<lparr> port = Some ''COM1'', baudrate = Some 9600, data_bits = Some 8, parity = Some ''Foo'',
         stop_bits = Some 1, flow_control = Some ''None'' \<rparr>"
  let ?odd = "\<lparr> port = Some ''COM1'', baudrate = None, data_bits = Some 9, parity = Some ''Even'',
         stop_bits = Some 3, flow_control = Some ''DTR'' \<rparr>"
  have h1: "port ?bad = None \<or> port ?bad = Some []" by simp
  have hf: "port ?foo = Some ''COM1'' \<and> ''COM1'' \<noteq> []
        \<and> c_int_ok (case baudrate ?foo of None \<Rightarrow> DEFAULT_BAUDRATE | Some b \<Rightarrow> b)
        \<and> parity ?foo = Some ''Foo''
        \<and> ''Foo'' \<notin> {''None'', ''Even'', ''Odd'', ''Mark'', ''Space''}"
    by (simp add: c_int_ok_def)
  have h2: "port ?odd = Some ''COM1'' \<and> ''COM1'' \<noteq> []
        \<and> c_int_ok (case baudrate ?odd of None \<Rightarrow> DEFAULT_BAUDRATE | Some b \<Rightarrow> b)
        \<and> parity ?odd \<in> {None, Some ''None'', Some ''Even'', Some ''Odd'', Some ''Mark'', Some ''Space''}"
    by (simp add: c_int_ok_def DEFAULT_BAUDRATE_def)
  have d: "data_bits ?odd = Some 9 \<and> (9::int) \<notin> {5, 6, 7, 8}" by simp
  have s: "stop_bits ?odd = Some 3 \<and> (3::rat) \<notin> {1, 3 / 2, 2}" by simp
  have f: "flow_control ?odd = Some ''DTR'' \<and> ''DTR'' \<notin> {''None'', ''RTS/CTS'', ''XON/XOFF''}" by simp
  have o: "open_succeeds qt_env_ok" by (simp add: qt_env_ok_def)
  note bad = configuration_errors [of ?bad qt_env_ok "new_SerialHandler\<lparr> serial_isOpen := True \<rparr>",
      THEN conjunct1, THEN mp, OF h1]
  note foo = configuration_errors [of ?foo qt_env_ok "new_SerialHandler\<lparr> serial_isOpen := True \<rparr>"
      "''COM1''" "''Foo''", THEN conjunct2, THEN conjunct1, THEN mp, OF hf]
  note odd = configuration_errors [of ?odd qt_env_ok new_SerialHandler "''COM1''",
      THEN conjunct2, THEN conjunct2, THEN mp, OF h2]
  have w1: "SerialHandler_init qt_env_ok ?bad
     = (Some ValueError, new_SerialHandler\<lparr> logged := [Error_configuration] \<rparr>)"
    by (rule bad [THEN conjunct2, THEN conjunct1])
  have w2: "\<not> serial_isOpen (snd (update_serial_config qt_env_ok ?bad
       (new_SerialHandler\<lparr> serial_isOpen := True \<rparr>)))"
    by (rule bad [THEN conjunct2, THEN conjunct2, THEN conjunct2, THEN conjunct1])
  have p1: "fst (update_serial_config qt_env_ok ?foo
       (new_SerialHandler\<lparr> serial_isOpen := True \<rparr>)) = Some TypeError"
    by (rule foo [THEN conjunct2, THEN conjunct2, THEN conjunct2, THEN conjunct2, THEN conjunct1])
  have p2: "\<not> serial_isOpen (snd (update_serial_config qt_env_ok ?foo
       (new_SerialHandler\<lparr> serial_isOpen := True \<rparr>)))"
    by (rule foo [THEN conjunct2, THEN conjunct2, THEN conjunct2, THEN conjunct2, THEN conjunct2])
  have w3: "serial_dataBits (snd (configure_serial qt_env_ok ?odd new_SerialHandler)) = Data8"
    by (rule odd [THEN conjunct2, THEN conjunct2, THEN conjunct1, THEN spec, THEN mp, OF d])
  have w4: "serial_stopBits (snd (configure_serial qt_env_ok ?odd new_SerialHandler)) = OneStop"
    by (rule odd [THEN conjunct2, THEN conjunct2, THEN conjunct2, THEN conjunct1, THEN spec,
          THEN mp, OF s])
  have w5: "serial_flowControl (snd (configure_serial qt_env_ok ?odd new_SerialHandler)) = NoFlowControl"
    by (rule odd [THEN conjunct2, THEN conjunct2, THEN conjunct2, THEN conjunct2, THEN conjunct1,
          THEN spec, THEN mp, OF f])
  have w6: "serial_isOpen (snd (SerialHandler_init qt_env_ok ?odd))"
    using odd [THEN conjunct2, THEN conjunct2, THEN conjunct2, THEN conjunct2, THEN conjunct2,
          THEN conjunct2] o by simp
  show ?thesis
    using w1 w2 p1 p2 w3 w4 w5 w6 by (intro conjI)
qed

text \<open>
  C10 as stated, with every value of \<open>data_bits\<close> outside its set a fatal error, fails for
  9 data bits on the port \<open>COM1\<close>: the constructor returns normally, the port has 8 data
  bits and is open, and nothing is logged.
\<close>

theorem invalid_data_bits_opens_counterexample:
  "SerialHandler_init qt_env_ok
       \<lparr> port = Some ''COM1'', baudrate = None, data_bits = Some 9, parity = None,
         stop_bits = None, flow_control = None \<rparr>
     = (None,
        \<lparr> serial_portName = ''COM1'', serial_baudRate = 115200, serial_dataBits = Data8,
          serial_parity = NoParity, serial_stopBits = OneStop, serial_flowControl = HardwareControl,
          serial_isOpen = True, serial_written = [],
          emitted = [serial_port_opened ''Serial port COM1 opened.''], logged = [] \<rparr>)"
  by (simp add: SerialHandler_init_def configure_serial_def set_port_name_def set_baudrate_def
      set_data_bits_def set_parity_def set_stop_bits_def set_flow_control_def open_serial_def
      new_SerialHandler_def qt_env_ok_def keep_name_def c_int_ok_def DEFAULT_BAUDRATE_def
      DEFAULT_DATA_BITS_def DEFAULT_PARITY_def DEFAULT_STOP_BITS_def DEFAULT_FLOW_CONTROL_def
      Let_def)

end
